theory Spec2Isabelle
  imports Complex_Main "HOL-Library.Sublist"
begin

section \<open>Parcel documents and their status logs\<close>

text \<open>
  The parcel service (\<^verbatim>\<open>services/parcel.service.ts\<close>) works on documents of one
  collection. A document carries its current \<^verbatim>\<open>status\<close> and the embedded array
  \<^verbatim>\<open>statusLogs\<close>. Identifiers are driver-level \<^verbatim>\<open>ObjectId\<close> values; the type
  variable \<open>'oid\<close> stands for them. Dates are milliseconds since the epoch.
\<close>

record 'oid statusLog =
  log_status :: string
  log_timestamp :: int
  log_note :: "string option"
  log_updatedBy :: "'oid option"

record 'oid parcel =
  parcel_id :: 'oid
  trackingId :: string
  senderId :: 'oid
  receiverId :: 'oid
  origin :: string
  destination :: string
  weight :: "real option"
  price :: "real option"
  status :: string
  statusLogs :: "'oid statusLog list"
  createdAt :: int

text \<open>The collection, in insertion order.\<close>

type_synonym 'oid collection = "'oid parcel list"

text \<open>
  Everything the service can throw. \<open>Error msg\<close> is the plain \<^verbatim>\<open>new Error(msg)\<close> of
  the source; the other constructors are raised by the driver: \<open>BSONError\<close> by the
  \<^verbatim>\<open>ObjectId\<close> constructor, \<open>ConflictError\<close> by an insert that violates a unique index,
  \<open>CastError\<close> and \<open>SyntaxError\<close> while a query is built, \<open>MongoServerError\<close> by a
  query the server refuses.
\<close>

datatype error =
    Error string
  | BSONError
  | ConflictError
  | CastError
  | SyntaxError
  | MongoServerError

text \<open>
  The error of \<^verbatim>\<open>cancelParcel\<close>; the specification calls it
  \<^verbatim>\<open>IllegalTransitionError\<close>.
\<close>

definition IllegalTransitionError :: error where
  "IllegalTransitionError = Error ''Cannot cancel parcel after dispatch''"

section \<open>The driver's identifiers\<close>

text \<open>
  \<^verbatim>\<open>new Types.ObjectId(s)\<close> belongs to the driver, not to this repository. It is a
  parameter \<open>objectId\<close> of every operation: \<open>objectId s = None\<close> when the constructor
  throws on the string \<open>s\<close>, and \<open>Some oid\<close> otherwise.
  \<^verbatim>\<open>Types.ObjectId.isValid(s)\<close> holds exactly when the constructor accepts \<open>s\<close>.
\<close>

definition isValid :: "(string \<Rightarrow> 'oid option) \<Rightarrow> string \<Rightarrow> bool" where
  "isValid objectId s = (objectId s \<noteq> None)"

text \<open>
  A concrete identifier format for running the operations on examples: 24
  hexadecimal digits, read case-insensitively. Every version of the driver accepts
  these strings, and none accepts a string of fewer than 12 characters.
\<close>

definition toLowerCase :: "char \<Rightarrow> char" where
  "toLowerCase c =
     (case map_of (zip ''ABCDEFGHIJKLMNOPQRSTUVWXYZ'' ''abcdefghijklmnopqrstuvwxyz'') c of
        None \<Rightarrow> c
      | Some l \<Rightarrow> l)"

definition isHexDigit :: "char \<Rightarrow> bool" where
  "isHexDigit c = (c \<in> set ''0123456789abcdefABCDEF'')"

definition hexObjectId :: "string \<Rightarrow> string option" where
  "hexObjectId s =
     (if length s = 24 \<and> list_all isHexDigit s then Some (map toLowerCase s) else None)"

section \<open>Repository operations\<close>

text \<open>\<^verbatim>\<open>Parcel.findById\<close>: the first document with the given identifier.\<close>

definition findById :: "'oid collection \<Rightarrow> 'oid \<Rightarrow> 'oid parcel option" where
  "findById store oid = find (\<lambda>p. parcel_id p = oid) store"

text \<open>
  \<^verbatim>\<open>getParcelById(id)\<close>: \<^verbatim>\<open>null\<close> when the string is not a valid identifier,
  otherwise the result of \<^verbatim>\<open>Parcel.findById(id)\<close>, which casts the string with the
  same constructor. (The two \<^verbatim>\<open>populate\<close> calls join the names of the sender and
  the receiver from the users' collection for the reader; they change neither the
  status nor the logs and are not modelled.)
\<close>

definition getParcelById ::
  "(string \<Rightarrow> 'oid option) \<Rightarrow> 'oid collection \<Rightarrow> string \<Rightarrow> 'oid parcel option" where
  "getParcelById objectId store ident =
     (if \<not> isValid objectId ident then None
      else (case objectId ident of
              None \<Rightarrow> None
            | Some oid \<Rightarrow> findById store oid))"

text \<open>
  Modelled from the spec: the schema \<^verbatim>\<open>models/Parcel.model.ts\<close> is not among the
  sources, so what \<^verbatim>\<open>p.save()\<close> and \<^verbatim>\<open>Parcel.create\<close> validate is unknown. Following
  the specification, \<open>save\<close> persists the full current state of the document it is
  given (it replaces the stored document with the same identifier, and validates
  nothing), and \<open>Parcel_create\<close> stores a new document unless its tracking identifier
  collides with a stored one. An identifier that is already in use is refused as well:
  the database's identifiers are unique.
\<close>

fun save :: "'oid parcel \<Rightarrow> 'oid collection \<Rightarrow> 'oid collection" where
  "save p [] = []"
| "save p (q # qs) = (if parcel_id q = parcel_id p then p # qs else q # save p qs)"

definition Parcel_create ::
  "'oid parcel \<Rightarrow> 'oid collection \<Rightarrow> (error + 'oid parcel) \<times> 'oid collection" where
  "Parcel_create p store =
     (if list_ex (\<lambda>q. trackingId q = trackingId p \<or> parcel_id q = parcel_id p) store
      then (Inl ConflictError, store)
      else (Inr p, store @ [p]))"

section \<open>The lifecycle operations of the service\<close>

text \<open>
  The operations take the current time \<open>now\<close> (the value of \<^verbatim>\<open>new Date()\<close>) and the
  collection, and return their result together with the collection afterwards. A
  result \<open>Inl e\<close> is a thrown error; \<open>Inr None\<close> is the \<^verbatim>\<open>null\<close> that the request
  handlers turn into "Parcel not found".
\<close>

record createParcelDTO =
  dto_senderId :: string
  dto_receiverId :: string
  dto_origin :: string
  dto_destination :: string
  dto_weight :: "real option"
  dto_price :: "real option"
  dto_note :: "string option"

text \<open>\<^verbatim>\<open>dto.note || "Parcel created"\<close>: an absent and an empty note are both falsy.\<close>

fun noteOrDefault :: "string option \<Rightarrow> string" where
  "noteOrDefault None = ''Parcel created''"
| "noteOrDefault (Some n) = (if n = [] then ''Parcel created'' else n)"

text \<open>
  \<^verbatim>\<open>createParcel(dto)\<close>. The tracking identifier comes from
  \<^verbatim>\<open>generateTrackingId()\<close> (a utility that is not among the sources) and the new
  document's identifier from the driver; both are arguments here. The schema's
  timestamps give the document its creation time.
\<close>

definition createParcel ::
  "(string \<Rightarrow> 'oid option) \<Rightarrow> int \<Rightarrow> string \<Rightarrow> 'oid \<Rightarrow> 'oid collection \<Rightarrow> createParcelDTO
     \<Rightarrow> (error + 'oid parcel) \<times> 'oid collection" where
  "createParcel objectId now newTrackingId newId store dto =
     (case objectId (dto_senderId dto) of
        None \<Rightarrow> (Inl BSONError, store)
      | Some senderObjectId \<Rightarrow>
          (case objectId (dto_receiverId dto) of
             None \<Rightarrow> (Inl BSONError, store)
           | Some receiverObjectId \<Rightarrow>
               let statusLog =
                     \<lparr> log_status = ''Created'',
                       log_timestamp = now,
                       log_note = Some (noteOrDefault (dto_note dto)),
                       log_updatedBy = Some senderObjectId \<rparr>
               in Parcel_create
                    \<lparr> parcel_id = newId,
                      trackingId = newTrackingId,
                      senderId = senderObjectId,
                      receiverId = receiverObjectId,
                      origin = dto_origin dto,
                      destination = dto_destination dto,
                      weight = dto_weight dto,
                      price = dto_price dto,
                      status = ''Created'',
                      statusLogs = [statusLog],
                      createdAt = now \<rparr>
                    store))"

text \<open>
  \<^verbatim>\<open>if (updatedBy) { log.updatedBy = new Types.ObjectId(updatedBy); }\<close>: an absent
  or empty acting user leaves the entry as it is; any other string goes through the
  driver's constructor, which may throw.
\<close>

fun setUpdatedBy ::
  "(string \<Rightarrow> 'oid option) \<Rightarrow> string option \<Rightarrow> 'oid statusLog \<Rightarrow> error + 'oid statusLog" where
  "setUpdatedBy objectId None entry = Inr entry"
| "setUpdatedBy objectId (Some u) entry =
     (if u = [] then Inr entry
      else (case objectId u of
              None \<Rightarrow> Inl BSONError
            | Some uo \<Rightarrow> Inr (entry\<lparr>log_updatedBy := Some uo\<rparr>)))"

text \<open>\<^verbatim>\<open>p.statusLogs.push(log); await p.save(); return p;\<close>\<close>

definition pushAndSave ::
  "'oid parcel \<Rightarrow> 'oid statusLog \<Rightarrow> 'oid collection
     \<Rightarrow> (error + 'oid parcel option) \<times> 'oid collection" where
  "pushAndSave p entry store =
     (let p' = p\<lparr>statusLogs := statusLogs p @ [entry]\<rparr>
      in (Inr (Some p'), save p' store))"

definition updateParcelStatus ::
  "(string \<Rightarrow> 'oid option) \<Rightarrow> int \<Rightarrow> 'oid collection \<Rightarrow> string \<Rightarrow> string \<Rightarrow> string option
     \<Rightarrow> string option \<Rightarrow> (error + 'oid parcel option) \<times> 'oid collection" where
  "updateParcelStatus objectId now store parcelId newStatus updatedBy note =
     (case getParcelById objectId store parcelId of
        None \<Rightarrow> (Inr None, store)
      | Some p \<Rightarrow>
          let p1 = p\<lparr>status := newStatus\<rparr>;
              entry = \<lparr> log_status = newStatus,
                      log_timestamp = now,
                      log_note = note,
                      log_updatedBy = None \<rparr>
          in (case setUpdatedBy objectId updatedBy entry of
                Inl e \<Rightarrow> (Inl e, store)
              | Inr entry' \<Rightarrow> pushAndSave p1 entry' store))"

definition cancelParcel ::
  "(string \<Rightarrow> 'oid option) \<Rightarrow> int \<Rightarrow> 'oid collection \<Rightarrow> string \<Rightarrow> string option
     \<Rightarrow> (error + 'oid parcel option) \<times> 'oid collection" where
  "cancelParcel objectId now store parcelId userId =
     (case getParcelById objectId store parcelId of
        None \<Rightarrow> (Inr None, store)
      | Some p \<Rightarrow>
          if status p \<in> set [''Dispatched'', ''InTransit'', ''Delivered'']
          then (Inl (Error ''Cannot cancel parcel after dispatch''), store)
          else
            let p1 = p\<lparr>status := ''Cancelled''\<rparr>;
                entry = \<lparr> log_status = ''Cancelled'',
                        log_timestamp = now,
                        log_note = Some ''Cancelled by user'',
                        log_updatedBy = None \<rparr>
            in (case setUpdatedBy objectId userId entry of
                  Inl e \<Rightarrow> (Inl e, store)
                | Inr entry' \<Rightarrow> pushAndSave p1 entry' store))"

section \<open>Request handlers\<close>

text \<open>
  The handlers of \<^verbatim>\<open>controllers/parcels.controller.ts\<close> check that the request carries
  what the service needs and turn the service's result into a response. A request is
  read through the fields the handlers look at: the identifier of the authenticated
  user (\<^verbatim>\<open>user?.id\<close>), the path parameter \<^verbatim>\<open>id\<close>, and the members of the JSON body.
  The body is taken to be an object, as the JSON body parser leaves it, and its members
  to be strings (numbers for weight and price) when present, so that \<^verbatim>\<open>String(x)\<close>
  is \<open>x\<close>.
\<close>

record request =
  req_user_id :: "string option"
  req_params_id :: "string option"
  req_body_receiverId :: "string option"
  req_body_origin :: "string option"
  req_body_destination :: "string option"
  req_body_weight :: "real option"
  req_body_price :: "real option"
  req_body_note :: "string option"
  req_body_status :: "string option"

text \<open>
  A response is its HTTP status code, the \<^verbatim>\<open>status\<close> member of the envelope, and
  either a message or the parcel returned as \<^verbatim>\<open>data\<close>. \<open>DriverMessage e\<close> is the
  message text that the driver gave the error \<open>e\<close>.
\<close>

datatype 'oid content = Message string | DriverMessage error | Data "'oid parcel"

datatype 'oid response = Response nat string "'oid content"

text \<open>
  The value of a string member when it is truthy: \<^verbatim>\<open>!x\<close> holds for an absent member
  and for the empty string.
\<close>

fun truthy :: "string option \<Rightarrow> string option" where
  "truthy None = None"
| "truthy (Some s) = (if s = [] then None else Some s)"

text \<open>\<^verbatim>\<open>err?.message || fallback\<close> in a \<^verbatim>\<open>catch\<close> block.\<close>

fun caught :: "error \<Rightarrow> string \<Rightarrow> 'oid content" where
  "caught (Error m) fallback = Message (if m = [] then fallback else m)"
| "caught e fallback = DriverMessage e"

definition createParcelHandler ::
  "(string \<Rightarrow> 'oid option) \<Rightarrow> int \<Rightarrow> string \<Rightarrow> 'oid \<Rightarrow> 'oid collection \<Rightarrow> request
     \<Rightarrow> 'oid response \<times> 'oid collection" where
  "createParcelHandler objectId now newTrackingId newId store req =
     (case truthy (req_user_id req) of
        None \<Rightarrow> (Response 401 ''fail'' (Message ''Not authenticated''), store)
      | Some userId \<Rightarrow>
          (case (truthy (req_body_receiverId req), truthy (req_body_origin req),
                 truthy (req_body_destination req)) of
             (Some receiver, Some orig, Some dest) \<Rightarrow>
               let dto = \<lparr> dto_senderId = userId,
                           dto_receiverId = receiver,
                           dto_origin = orig,
                           dto_destination = dest,
                           dto_weight = req_body_weight req,
                           dto_price = req_body_price req,
                           dto_note = req_body_note req \<rparr>
               in (case createParcel objectId now newTrackingId newId store dto of
                     (Inr parcel, store') \<Rightarrow> (Response 201 ''success'' (Data parcel), store')
                   | (Inl err, store') \<Rightarrow>
                       (Response 400 ''fail'' (caught err ''Could not create parcel''), store'))
           | _ \<Rightarrow> (Response 400 ''fail'' (Message ''Missing required parcel fields''), store)))"

definition updateStatusHandler ::
  "(string \<Rightarrow> 'oid option) \<Rightarrow> int \<Rightarrow> 'oid collection \<Rightarrow> request
     \<Rightarrow> 'oid response \<times> 'oid collection" where
  "updateStatusHandler objectId now store req =
     (case truthy (req_user_id req) of
        None \<Rightarrow> (Response 401 ''fail'' (Message ''Not authenticated''), store)
      | Some userId \<Rightarrow>
          (case truthy (req_params_id req) of
             None \<Rightarrow> (Response 400 ''fail'' (Message ''Missing parcel id''), store)
           | Some ident \<Rightarrow>
               (case truthy (req_body_status req) of
                  None \<Rightarrow> (Response 400 ''fail'' (Message ''Missing status''), store)
                | Some newStatus \<Rightarrow>
                    (case updateParcelStatus objectId now store ident newStatus (Some userId)
                            (req_body_note req) of
                       (Inr None, store') \<Rightarrow>
                         (Response 404 ''fail'' (Message ''Parcel not found''), store')
                     | (Inr (Some updated), store') \<Rightarrow>
                         (Response 200 ''success'' (Data updated), store')
                     | (Inl err, store') \<Rightarrow>
                         (Response 400 ''fail'' (caught err ''Could not update status''),
                          store')))))"

definition cancelParcelHandler ::
  "(string \<Rightarrow> 'oid option) \<Rightarrow> int \<Rightarrow> 'oid collection \<Rightarrow> request
     \<Rightarrow> 'oid response \<times> 'oid collection" where
  "cancelParcelHandler objectId now store req =
     (case truthy (req_user_id req) of
        None \<Rightarrow> (Response 401 ''fail'' (Message ''Not authenticated''), store)
      | Some userId \<Rightarrow>
          (case truthy (req_params_id req) of
             None \<Rightarrow> (Response 400 ''fail'' (Message ''Missing parcel id''), store)
           | Some ident \<Rightarrow>
               (case cancelParcel objectId now store ident (Some userId) of
                  (Inr None, store') \<Rightarrow>
                    (Response 404 ''fail'' (Message ''Parcel not found''), store')
                | (Inr (Some cancelled), store') \<Rightarrow>
                    (Response 200 ''success'' (Data cancelled), store')
                | (Inl err, store') \<Rightarrow>
                    (Response 400 ''fail'' (caught err ''Could not cancel parcel''), store'))))"

section \<open>Sequences of calls\<close>

text \<open>
  A call of one of the three mutating operations, with the arguments it is given. A
  creation also carries the tracking identifier and the document identifier that are
  generated for it. \<open>perform\<close> runs one call; \<open>performAll\<close> runs calls one after the
  other, each at its own time, whatever the earlier ones returned.
\<close>

datatype 'oid call =
    CreateParcel createParcelDTO string 'oid
  | UpdateParcelStatus string string "string option" "string option"
  | CancelParcel string "string option"

fun perform ::
  "(string \<Rightarrow> 'oid option) \<Rightarrow> int \<Rightarrow> 'oid collection \<Rightarrow> 'oid call
     \<Rightarrow> (error + 'oid parcel option) \<times> 'oid collection" where
  "perform objectId now store (CreateParcel dto newTrackingId newId) =
     (case createParcel objectId now newTrackingId newId store dto of
        (Inl e, store') \<Rightarrow> (Inl e, store')
      | (Inr p, store') \<Rightarrow> (Inr (Some p), store'))"
| "perform objectId now store (UpdateParcelStatus parcelId newStatus updatedBy note) =
     updateParcelStatus objectId now store parcelId newStatus updatedBy note"
| "perform objectId now store (CancelParcel parcelId userId) =
     cancelParcel objectId now store parcelId userId"

fun performAll ::
  "(string \<Rightarrow> 'oid option) \<Rightarrow> 'oid collection \<Rightarrow> (int \<times> 'oid call) list \<Rightarrow> 'oid collection" where
  "performAll objectId store [] = store"
| "performAll objectId store ((now, c) # cs) =
     performAll objectId (snd (perform objectId now store c)) cs"

text \<open>The status log that the collection holds under an identifier.\<close>

definition logsOf :: "'oid collection \<Rightarrow> 'oid \<Rightarrow> 'oid statusLog list" where
  "logsOf store oid = (case findById store oid of None \<Rightarrow> [] | Some p \<Rightarrow> statusLogs p)"

text \<open>The invariant of the data model: the status is the one of the last log entry.\<close>

definition statusIsLastLog :: "'oid parcel \<Rightarrow> bool" where
  "statusIsLastLog p =
     (statusLogs p \<noteq> [] \<and> status p = log_status (last (statusLogs p)))"

text \<open>
  The acting user of a call as the interface contract has it ("supplied by an
  authentication collaborator already validated before reaching the core"): absent,
  or the identifier of a user, which is a non-empty string that the driver accepts.
  What the operations do with any other string is stated separately below.
\<close>

definition wellFormedUser :: "(string \<Rightarrow> 'oid option) \<Rightarrow> string option \<Rightarrow> bool" where
  "wellFormedUser objectId userId =
     (case userId of None \<Rightarrow> True | Some u \<Rightarrow> u \<noteq> [] \<and> isValid objectId u)"

section \<open>Listing parcels\<close>

text \<open>
  \<^verbatim>\<open>buildParcelsQuery(filters)\<close> reads seven members of the filter bag, each used only
  when truthy; they are taken to be strings, as plain query parameters are. Two more
  things come from outside the repository and are parameters: \<open>regExp\<close> stands for
  \<^verbatim>\<open>new RegExp(pattern, "i")\<close> (\<open>None\<close> when the pattern is malformed and the
  constructor throws, otherwise the test that the expression performs on a string), and
  \<open>newDate\<close> for \<^verbatim>\<open>new Date(text)\<close>, which never throws but may yield an invalid date.
\<close>

datatype date = Date int | InvalidDate

record filters =
  filter_status :: "string option"
  filter_senderId :: "string option"
  filter_receiverId :: "string option"
  filter_trackingId :: "string option"
  filter_q :: "string option"
  filter_fromDate :: "string option"
  filter_toDate :: "string option"

text \<open>The filter document \<^verbatim>\<open>q\<close>; \<open>q_or\<close> is the expression of its \<^verbatim>\<open>$or\<close> member.\<close>

record parcelsQuery =
  q_status :: "string option"
  q_senderId :: "string option"
  q_receiverId :: "string option"
  q_trackingId :: "string option"
  q_or :: "(string \<Rightarrow> bool) option"
  q_createdAt :: "(date option \<times> date option) option"

definition buildParcelsQuery ::
  "(string \<Rightarrow> (string \<Rightarrow> bool) option) \<Rightarrow> (string \<Rightarrow> date) \<Rightarrow> filters \<Rightarrow> error + parcelsQuery" where
  "buildParcelsQuery regExp newDate fs =
     (case (case truthy (filter_q fs) of
              None \<Rightarrow> Inr None
            | Some pattern \<Rightarrow>
                (case regExp pattern of
                   None \<Rightarrow> Inl SyntaxError
                 | Some regex \<Rightarrow> Inr (Some regex))) of
        Inl e \<Rightarrow> Inl e
      | Inr regex \<Rightarrow>
          Inr \<lparr> q_status = truthy (filter_status fs),
                q_senderId = truthy (filter_senderId fs),
                q_receiverId = truthy (filter_receiverId fs),
                q_trackingId = truthy (filter_trackingId fs),
                q_or = regex,
                q_createdAt =
                  (if truthy (filter_fromDate fs) \<noteq> None \<or> truthy (filter_toDate fs) \<noteq> None
                   then Some (map_option newDate (truthy (filter_fromDate fs)),
                              map_option newDate (truthy (filter_toDate fs)))
                   else None) \<rparr>)"

text \<open>
  Modelled from the spec: the schema \<^verbatim>\<open>models/Parcel.model.ts\<close> is not among the
  sources. With the field types of the data model (identifiers for the sender and the
  receiver, a date for the creation time, strings elsewhere) a filter document is
  evaluated as follows. The database casts the filter first and refuses a sender or
  receiver that is no identifier and a bound that is no valid date; \<open>matches\<close> then
  selects a document: equality for the plain members, the expression on the origin, the
  destination or the tracking identifier, and \<^verbatim>\<open>$gte\<close> and \<^verbatim>\<open>$lte\<close> on the creation
  time.
\<close>

definition castable :: "(string \<Rightarrow> 'oid option) \<Rightarrow> parcelsQuery \<Rightarrow> bool" where
  "castable objectId q =
     ((case q_senderId q of None \<Rightarrow> True | Some s \<Rightarrow> isValid objectId s) \<and>
      (case q_receiverId q of None \<Rightarrow> True | Some s \<Rightarrow> isValid objectId s) \<and>
      (case q_createdAt q of
         None \<Rightarrow> True
       | Some (gte, lte) \<Rightarrow> gte \<noteq> Some InvalidDate \<and> lte \<noteq> Some InvalidDate))"

definition matches :: "(string \<Rightarrow> 'oid option) \<Rightarrow> parcelsQuery \<Rightarrow> 'oid parcel \<Rightarrow> bool" where
  "matches objectId q p =
     ((case q_status q of None \<Rightarrow> True | Some s \<Rightarrow> status p = s) \<and>
      (case q_senderId q of None \<Rightarrow> True | Some s \<Rightarrow> objectId s = Some (senderId p)) \<and>
      (case q_receiverId q of None \<Rightarrow> True | Some s \<Rightarrow> objectId s = Some (receiverId p)) \<and>
      (case q_trackingId q of None \<Rightarrow> True | Some t \<Rightarrow> trackingId p = t) \<and>
      (case q_or q of
         None \<Rightarrow> True
       | Some regex \<Rightarrow> regex (origin p) \<or> regex (destination p) \<or> regex (trackingId p)) \<and>
      (case q_createdAt q of
         None \<Rightarrow> True
       | Some (gte, lte) \<Rightarrow>
           (case gte of Some (Date d) \<Rightarrow> d \<le> createdAt p | _ \<Rightarrow> True) \<and>
           (case lte of Some (Date d) \<Rightarrow> createdAt p \<le> d | _ \<Rightarrow> True)))"

text \<open>
  The sort specification reaches the database as it is; here it is the order \<open>le\<close> that
  it denotes. Sorting is stable insertion sort. The default \<^verbatim>\<open>"-createdAt"\<close> is
  \<open>newestFirst\<close>.
\<close>

fun insertBy :: "('a \<Rightarrow> 'a \<Rightarrow> bool) \<Rightarrow> 'a \<Rightarrow> 'a list \<Rightarrow> 'a list" where
  "insertBy le x [] = [x]"
| "insertBy le x (y # ys) = (if le x y then x # y # ys else y # insertBy le x ys)"

definition sortBy :: "('a \<Rightarrow> 'a \<Rightarrow> bool) \<Rightarrow> 'a list \<Rightarrow> 'a list" where
  "sortBy le xs = foldr (insertBy le) xs []"

definition newestFirst :: "'oid parcel \<Rightarrow> 'oid parcel \<Rightarrow> bool" where
  "newestFirst p q = (createdAt q \<le> createdAt p)"

text \<open>
  \<^verbatim>\<open>.limit(n)\<close>: zero means no limit, and a negative number limits like its absolute
  value. \<^verbatim>\<open>.skip(n)\<close> with a negative number is refused by the database.
\<close>

definition applyLimit :: "int \<Rightarrow> 'a list \<Rightarrow> 'a list" where
  "applyLimit n xs = (if n = 0 then xs else take (nat \<bar>n\<bar>) xs)"

definition Parcel_find ::
  "(string \<Rightarrow> 'oid option) \<Rightarrow> parcelsQuery \<Rightarrow> ('oid parcel \<Rightarrow> 'oid parcel \<Rightarrow> bool) \<Rightarrow> int \<Rightarrow> int
     \<Rightarrow> 'oid collection \<Rightarrow> error + 'oid parcel list" where
  "Parcel_find objectId q le skip limit store =
     (if \<not> castable objectId q then Inl CastError
      else if skip < 0 then Inl MongoServerError
      else Inr (applyLimit limit (drop (nat skip) (sortBy le (filter (matches objectId q) store)))))"

definition Parcel_countDocuments ::
  "(string \<Rightarrow> 'oid option) \<Rightarrow> parcelsQuery \<Rightarrow> 'oid collection \<Rightarrow> error + nat" where
  "Parcel_countDocuments objectId q store =
     (if \<not> castable objectId q then Inl CastError
      else Inr (length (filter (matches objectId q) store)))"

text \<open>
  \<^verbatim>\<open>listParcels({filters = {}, page = 1, limit = 10, sort = "-createdAt"})\<close>: an absent
  argument takes its default. The result is the page and the total.
\<close>

definition emptyFilters :: filters where
  "emptyFilters =
     \<lparr> filter_status = None, filter_senderId = None, filter_receiverId = None,
       filter_trackingId = None, filter_q = None, filter_fromDate = None,
       filter_toDate = None \<rparr>"

definition listParcels ::
  "(string \<Rightarrow> 'oid option) \<Rightarrow> (string \<Rightarrow> (string \<Rightarrow> bool) option) \<Rightarrow> (string \<Rightarrow> date)
     \<Rightarrow> 'oid collection \<Rightarrow> filters option \<Rightarrow> int option \<Rightarrow> int option
     \<Rightarrow> ('oid parcel \<Rightarrow> 'oid parcel \<Rightarrow> bool) option \<Rightarrow> error + ('oid parcel list \<times> nat)" where
  "listParcels objectId regExp newDate store filtersArg pageArg limitArg sortArg =
     (let fs = (case filtersArg of None \<Rightarrow> emptyFilters | Some f \<Rightarrow> f);
          page = (case pageArg of None \<Rightarrow> 1 | Some n \<Rightarrow> n);
          limit = (case limitArg of None \<Rightarrow> 10 | Some n \<Rightarrow> n);
          le = (case sortArg of None \<Rightarrow> newestFirst | Some r \<Rightarrow> r)
      in (case buildParcelsQuery regExp newDate fs of
            Inl e \<Rightarrow> Inl e
          | Inr q \<Rightarrow>
              let skip = (page - 1) * limit
              in (case Parcel_find objectId q le skip limit store of
                    Inl e \<Rightarrow> Inl e
                  | Inr items \<Rightarrow>
                      (case Parcel_countDocuments objectId q store of
                         Inl e \<Rightarrow> Inl e
                       | Inr totalCount \<Rightarrow> Inr (items, totalCount)))))"

subsection \<open>What the specification says a filter selects\<close>

text \<open>
  The predicates of the specification, written from its words: every given member of
  the filter must hold of the parcel. The free-text term is compared by \<open>textMatch\<close>.
  The specification's reading is \<open>containsIgnoringCase\<close>: the term occurs in the field
  as a substring, letter case ignored. The service's reading is \<open>regExpMatch\<close>: the
  term is a regular expression that the field must match.
\<close>

definition given :: "string option \<Rightarrow> (string \<Rightarrow> bool) \<Rightarrow> bool" where
  "given member holds = (case truthy member of None \<Rightarrow> True | Some v \<Rightarrow> holds v)"

definition selected ::
  "(string \<Rightarrow> 'oid option) \<Rightarrow> (string \<Rightarrow> string \<Rightarrow> bool) \<Rightarrow> (string \<Rightarrow> date) \<Rightarrow> filters
     \<Rightarrow> 'oid parcel \<Rightarrow> bool" where
  "selected objectId textMatch newDate fs p =
     (given (filter_status fs) (\<lambda>s. status p = s) \<and>
      given (filter_senderId fs) (\<lambda>s. objectId s = Some (senderId p)) \<and>
      given (filter_receiverId fs) (\<lambda>s. objectId s = Some (receiverId p)) \<and>
      given (filter_trackingId fs) (\<lambda>t. trackingId p = t) \<and>
      given (filter_q fs)
        (\<lambda>t. textMatch t (origin p) \<or> textMatch t (destination p) \<or> textMatch t (trackingId p)) \<and>
      given (filter_fromDate fs)
        (\<lambda>t. case newDate t of Date d \<Rightarrow> d \<le> createdAt p | InvalidDate \<Rightarrow> False) \<and>
      given (filter_toDate fs)
        (\<lambda>t. case newDate t of Date d \<Rightarrow> createdAt p \<le> d | InvalidDate \<Rightarrow> False))"

definition containsIgnoringCase :: "string \<Rightarrow> string \<Rightarrow> bool" where
  "containsIgnoringCase t s = sublist (map toLowerCase t) (map toLowerCase s)"

definition regExpMatch :: "(string \<Rightarrow> (string \<Rightarrow> bool) option) \<Rightarrow> string \<Rightarrow> string \<Rightarrow> bool" where
  "regExpMatch regExp t s = (case regExp t of None \<Rightarrow> False | Some regex \<Rightarrow> regex s)"

subsection \<open>A small regular-expression engine for examples\<close>

text \<open>
  An instance of \<open>regExp\<close> for running the listing on examples. It follows the engine
  on patterns made of ordinary characters, which match themselves with letter case
  ignored, and of dots, which match any character but a line break. It refuses every
  pattern that holds another special character; the real engine refuses only the
  malformed ones among them.
\<close>

definition regExpSpecial :: "char \<Rightarrow> bool" where
  "regExpSpecial c = (c \<in> set (CHR 0x5C # ''^$.*+?()[]{}|''))"

definition lineBreak :: "char \<Rightarrow> bool" where
  "lineBreak c = (c = CHR 0x0A \<or> c = CHR 0x0D)"

fun matchesAt :: "string \<Rightarrow> string \<Rightarrow> bool" where
  "matchesAt [] s = True"
| "matchesAt (c # cs) [] = False"
| "matchesAt (c # cs) (x # xs) =
     ((if c = CHR ''.'' then \<not> lineBreak x else toLowerCase c = toLowerCase x) \<and> matchesAt cs xs)"

fun matchesSomewhere :: "string \<Rightarrow> string \<Rightarrow> bool" where
  "matchesSomewhere pattern [] = matchesAt pattern []"
| "matchesSomewhere pattern (x # xs) =
     (matchesAt pattern (x # xs) \<or> matchesSomewhere pattern xs)"

definition dotRegExp :: "string \<Rightarrow> (string \<Rightarrow> bool) option" where
  "dotRegExp pattern =
     (if list_ex (\<lambda>c. regExpSpecial c \<and> c \<noteq> CHR ''.'') pattern then None
      else Some (matchesSomewhere pattern))"

section \<open>Example data\<close>

text \<open>
  The parcel of the specification's scenarios, from Lagos to Abuja, stored under a
  24-digit identifier with a given status, and the empty request.
\<close>

definition exampleId :: string where
  "exampleId = ''aaaaaaaaaaaaaaaaaaaaaaaa''"

definition exampleSender :: string where
  "exampleSender = ''111111111111111111111111''"

definition exampleReceiver :: string where
  "exampleReceiver = ''222222222222222222222222''"

definition exampleParcel :: "string \<Rightarrow> string parcel" where
  "exampleParcel st =
     \<lparr> parcel_id = exampleId,
       trackingId = ''TRK-1'',
       senderId = exampleSender,
       receiverId = exampleReceiver,
       origin = ''Lagos'',
       destination = ''Abuja'',
       weight = None,
       price = None,
       status = st,
       statusLogs =
         [\<lparr> log_status = st, log_timestamp = 1000, log_note = Some ''Parcel created'',
            log_updatedBy = Some exampleSender \<rparr>],
       createdAt = 1000 \<rparr>"

definition exampleDTO :: "string option \<Rightarrow> createParcelDTO" where
  "exampleDTO note =
     \<lparr> dto_senderId = exampleSender,
       dto_receiverId = exampleReceiver,
       dto_origin = ''Lagos'',
       dto_destination = ''Abuja'',
       dto_weight = None,
       dto_price = None,
       dto_note = note \<rparr>"

definition emptyRequest :: request where
  "emptyRequest =
     \<lparr> req_user_id = None, req_params_id = None, req_body_receiverId = None,
       req_body_origin = None, req_body_destination = None, req_body_weight = None,
       req_body_price = None, req_body_note = None, req_body_status = None \<rparr>"

text \<open>
  The first scenario of the specification as a sequence of calls: create the parcel,
  dispatch it, then try to cancel it.
\<close>

definition scenario :: "(int \<times> string call) list" where
  "scenario =
     [(1000, CreateParcel (exampleDTO None) ''TRK-1'' exampleId),
      (2000, UpdateParcelStatus exampleId ''Dispatched'' None None),
      (3000, CancelParcel exampleId None)]"

text \<open>
  The collection of the specification's query scenario: three parcels, with the
  statuses Created, Dispatched and Delivered.
\<close>

definition threeParcels :: "string parcel list" where
  "threeParcels =
     [exampleParcel ''Created'',
      (exampleParcel ''Dispatched'')
        \<lparr>parcel_id := ''bbbbbbbbbbbbbbbbbbbbbbbb'', trackingId := ''TRK-2'', createdAt := 2000\<rparr>,
      (exampleParcel ''Delivered'')
        \<lparr>parcel_id := ''cccccccccccccccccccccccc'', trackingId := ''TRK-3'', createdAt := 3000\<rparr>]"

text \<open>
  An instance of \<open>newDate\<close> for the examples: the values of \<^verbatim>\<open>new Date\<close> on two ISO
  strings, and an invalid date on every other string.
\<close>

definition exampleNewDate :: "string \<Rightarrow> date" where
  "exampleNewDate text =
     (if text = ''1970-01-01T00:00:01.000Z'' then Date 1000
      else if text = ''1970-01-01T00:00:02.000Z'' then Date 2000
      else InvalidDate)"

section \<open>Looking parcels up and writing them back\<close>

lemma getParcelById_Some:
  "getParcelById objectId store ident = Some p \<Longrightarrow>
     \<exists>oid. objectId ident = Some oid \<and> findById store oid = Some p"
  by (auto simp: getParcelById_def isValid_def split: if_splits option.splits)

lemma getParcelById_eq:
  "objectId ident = Some oid \<Longrightarrow> getParcelById objectId store ident = findById store oid"
  by (simp add: getParcelById_def isValid_def)

lemma findById_parcel_id: "findById store oid = Some p \<Longrightarrow> parcel_id p = oid"
  unfolding findById_def by (induction store) (auto split: if_splits)

lemma findById_mem: "findById store oid = Some p \<Longrightarrow> p \<in> set store"
  unfolding findById_def by (induction store) (auto split: if_splits)

lemma findById_None: "findById store oid = None \<longleftrightarrow> oid \<notin> parcel_id ` set store"
  unfolding findById_def by (induction store) auto

lemma findById_save_same:
  "findById store oid = Some p \<Longrightarrow> parcel_id p' = oid \<Longrightarrow> findById (save p' store) oid = Some p'"
  unfolding findById_def by (induction store) (auto split: if_splits)

lemma findById_save_other:
  "parcel_id p' \<noteq> oid \<Longrightarrow> findById (save p' store) oid = findById store oid"
  unfolding findById_def by (induction store) (auto split: if_splits)

lemma getParcelById_save:
  assumes "getParcelById objectId store ident = Some p" and "parcel_id p' = parcel_id p"
  shows "getParcelById objectId (save p' store) ident = Some p'"
proof -
  from assms(1) obtain oid where c: "objectId ident = Some oid" and f: "findById store oid = Some p"
    using getParcelById_Some by blast
  from f have "parcel_id p = oid" by (rule findById_parcel_id)
  with assms(2) f have "findById (save p' store) oid = Some p'"
    by (simp add: findById_save_same)
  with c show ?thesis by (simp add: getParcelById_eq)
qed

section \<open>Cancelling\<close>

lemma setUpdatedBy_wellFormed:
  assumes "wellFormedUser objectId userId" and "log_updatedBy entry = None"
  shows "setUpdatedBy objectId userId entry = Inr (entry\<lparr>log_updatedBy := Option.bind userId objectId\<rparr>)"
  using assms by (cases userId) (auto simp: wellFormedUser_def isValid_def)

lemma wellFormedUser_supplied:
  "wellFormedUser objectId userId \<Longrightarrow> (Option.bind userId objectId \<noteq> None) = (userId \<noteq> None)"
  by (cases userId) (auto simp: wellFormedUser_def isValid_def)

lemma cancelParcel_refused:
  assumes "getParcelById objectId store parcelId = Some p"
    and "status p \<in> {''Dispatched'', ''InTransit'', ''Delivered''}"
  shows "cancelParcel objectId now store parcelId userId = (Inl IllegalTransitionError, store)"
  using assms by (auto simp: cancelParcel_def IllegalTransitionError_def)

lemma cancelParcel_done:
  assumes "getParcelById objectId store parcelId = Some p"
    and "status p \<notin> {''Dispatched'', ''InTransit'', ''Delivered''}"
    and "wellFormedUser objectId userId"
    and "p' = p\<lparr>status := ''Cancelled'',
                 statusLogs := statusLogs p @
                   [\<lparr> log_status = ''Cancelled'', log_timestamp = now,
                      log_note = Some ''Cancelled by user'',
                      log_updatedBy = Option.bind userId objectId \<rparr>]\<rparr>"
  shows "cancelParcel objectId now store parcelId userId = (Inr (Some p'), save p' store)"
  using assms by (simp add: cancelParcel_def setUpdatedBy_wellFormed pushAndSave_def Let_def)

text \<open>
  Claim C1. Let the parcel \<open>p\<close> be the one stored under \<open>parcelId\<close>. If its status is
  Dispatched, InTransit or Delivered, \<open>cancelParcel\<close> fails with the illegal-transition
  error and the collection is the one before the call, so the status and the logs of
  the parcel are unchanged. For every other status, and an acting user that is absent
  or a validated identifier, it succeeds: the parcel returned and stored has status
  Cancelled and the old logs followed by exactly one entry, with the note
  "Cancelled by user", whose \<open>updatedBy\<close> is set exactly when a user was supplied.
\<close>

theorem cancelParcel_guard_and_effect:
  assumes "getParcelById objectId store parcelId = Some p"
  shows "(status p \<in> {''Dispatched'', ''InTransit'', ''Delivered''} \<longrightarrow>
            cancelParcel objectId now store parcelId userId = (Inl IllegalTransitionError, store))
       \<and> (status p \<notin> {''Dispatched'', ''InTransit'', ''Delivered''}
            \<and> wellFormedUser objectId userId \<longrightarrow>
            (let entry = \<lparr> log_status = ''Cancelled'', log_timestamp = now,
                            log_note = Some ''Cancelled by user'',
                            log_updatedBy = Option.bind userId objectId \<rparr>;
                 p' = p\<lparr>status := ''Cancelled'', statusLogs := statusLogs p @ [entry]\<rparr>
             in cancelParcel objectId now store parcelId userId = (Inr (Some p'), save p' store)
                \<and> getParcelById objectId (save p' store) parcelId = Some p'
                \<and> (log_updatedBy entry \<noteq> None) = (userId \<noteq> None)))"
proof (intro conjI impI)
  assume "status p \<in> {''Dispatched'', ''InTransit'', ''Delivered''}"
  with assms show "cancelParcel objectId now store parcelId userId = (Inl IllegalTransitionError, store)"
    by (rule cancelParcel_refused)
next
  assume h: "status p \<notin> {''Dispatched'', ''InTransit'', ''Delivered''} \<and> wellFormedUser objectId userId"
  define entry where "entry = \<lparr> log_status = ''Cancelled'', log_timestamp = now,
                            log_note = Some ''Cancelled by user'',
                            log_updatedBy = Option.bind userId objectId \<rparr>"
  define p' where "p' = p\<lparr>status := ''Cancelled'', statusLogs := statusLogs p @ [entry]\<rparr>"
  have 1: "cancelParcel objectId now store parcelId userId = (Inr (Some p'), save p' store)"
    using assms h by (intro cancelParcel_done) (simp_all add: p'_def entry_def)
  have 2: "getParcelById objectId (save p' store) parcelId = Some p'"
    using assms by (rule getParcelById_save) (simp add: p'_def)
  have 3: "(log_updatedBy entry \<noteq> None) = (userId \<noteq> None)"
    using h by (simp only: entry_def statusLog.simps wellFormedUser_supplied)
  from 1 2 3 show "let entry = \<lparr> log_status = ''Cancelled'', log_timestamp = now,
                            log_note = Some ''Cancelled by user'',
                            log_updatedBy = Option.bind userId objectId \<rparr>;
                 p' = p\<lparr>status := ''Cancelled'', statusLogs := statusLogs p @ [entry]\<rparr>
             in cancelParcel objectId now store parcelId userId = (Inr (Some p'), save p' store)
                \<and> getParcelById objectId (save p' store) parcelId = Some p'
                \<and> (log_updatedBy entry \<noteq> None) = (userId \<noteq> None)"
    unfolding Let_def p'_def entry_def by blast
qed

text \<open>The example parcel is found under its identifier; the example user is well formed.\<close>

lemma example_found:
  "getParcelById hexObjectId [exampleParcel st] exampleId = Some (exampleParcel st)"
  by (simp add: getParcelById_def isValid_def hexObjectId_def exampleId_def exampleParcel_def
      findById_def isHexDigit_def toLowerCase_def)

lemma example_user: "wellFormedUser hexObjectId (Some exampleSender)"
  by (simp add: wellFormedUser_def isValid_def hexObjectId_def exampleSender_def isHexDigit_def)

lemma example_user_oid: "hexObjectId exampleSender = Some exampleSender"
  by (simp add: hexObjectId_def exampleSender_def isHexDigit_def toLowerCase_def)

theorem cancelParcel_guard_and_effect_witness:
  "cancelParcel hexObjectId 2000 [exampleParcel ''Dispatched''] exampleId (Some exampleSender)
     = (Inl IllegalTransitionError, [exampleParcel ''Dispatched''])
   \<and> cancelParcel hexObjectId 2000 [exampleParcel ''Created''] exampleId (Some exampleSender)
     = (Inr (Some ((exampleParcel ''Created'')
               \<lparr>status := ''Cancelled'',
                statusLogs := statusLogs (exampleParcel ''Created'') @
                  [\<lparr> log_status = ''Cancelled'', log_timestamp = 2000,
                     log_note = Some ''Cancelled by user'',
                     log_updatedBy = Some exampleSender \<rparr>]\<rparr>)),
        [(exampleParcel ''Created'')
               \<lparr>status := ''Cancelled'',
                statusLogs := statusLogs (exampleParcel ''Created'') @
                  [\<lparr> log_status = ''Cancelled'', log_timestamp = 2000,
                     log_note = Some ''Cancelled by user'',
                     log_updatedBy = Some exampleSender \<rparr>]\<rparr>])"
  using cancelParcel_guard_and_effect [OF example_found, of "''Dispatched''" 2000 "Some exampleSender"]
    cancelParcel_guard_and_effect [OF example_found, of "''Created''" 2000 "Some exampleSender"]
    example_user
  by (simp add: Let_def example_user_oid exampleParcel_def)

text \<open>
  Outside the contract: a supplied acting user that the driver refuses makes the
  constructor throw before anything is saved, and an empty string counts as no user.
\<close>

lemma cancelParcel_malformed_user:
  assumes "getParcelById objectId store parcelId = Some p"
    and "status p \<notin> {''Dispatched'', ''InTransit'', ''Delivered''}"
    and "u \<noteq> []" and "\<not> isValid objectId u"
  shows "cancelParcel objectId now store parcelId (Some u) = (Inl BSONError, store)"
  using assms by (simp add: cancelParcel_def isValid_def)

lemma cancelParcel_empty_user:
  "cancelParcel objectId now store parcelId (Some []) = cancelParcel objectId now store parcelId None"
  by (simp add: cancelParcel_def cong: option.case_cong if_cong)

text \<open>
  Claim C9. A parcel that is already Cancelled can be cancelled again (the acting user
  being absent or a validated identifier): the call succeeds, the status stays
  Cancelled, and one more entry with status Cancelled and the note "Cancelled by user"
  is appended. The guard looks only for Dispatched, InTransit and Delivered, so a
  second call on the result succeeds as well and the log has grown by two.
\<close>

theorem cancelParcel_again:
  assumes "getParcelById objectId store parcelId = Some p"
    and "status p = ''Cancelled''"
    and "wellFormedUser objectId userId"
    and "wellFormedUser objectId userId'"
  shows "(let p1 = p\<lparr>statusLogs := statusLogs p @
                       [\<lparr> log_status = ''Cancelled'', log_timestamp = now,
                          log_note = Some ''Cancelled by user'',
                          log_updatedBy = Option.bind userId objectId \<rparr>]\<rparr>;
              p2 = p1\<lparr>statusLogs := statusLogs p1 @
                       [\<lparr> log_status = ''Cancelled'', log_timestamp = now',
                          log_note = Some ''Cancelled by user'',
                          log_updatedBy = Option.bind userId' objectId \<rparr>]\<rparr>
          in cancelParcel objectId now store parcelId userId = (Inr (Some p1), save p1 store)
             \<and> status p1 = ''Cancelled''
             \<and> cancelParcel objectId now' (save p1 store) parcelId userId'
                 = (Inr (Some p2), save p2 (save p1 store))
             \<and> status p2 = ''Cancelled''
             \<and> length (statusLogs p2) = length (statusLogs p) + 2)"
proof -
  define p1 where "p1 = p\<lparr>statusLogs := statusLogs p @
                       [\<lparr> log_status = ''Cancelled'', log_timestamp = now,
                          log_note = Some ''Cancelled by user'',
                          log_updatedBy = Option.bind userId objectId \<rparr>]\<rparr>"
  define p2 where "p2 = p1\<lparr>statusLogs := statusLogs p1 @
                       [\<lparr> log_status = ''Cancelled'', log_timestamp = now',
                          log_note = Some ''Cancelled by user'',
                          log_updatedBy = Option.bind userId' objectId \<rparr>]\<rparr>"
  have s1: "status p1 = ''Cancelled''" and s2: "status p2 = ''Cancelled''"
    using assms(2) by (simp_all add: p1_def p2_def)
  have ok: "status p \<notin> {''Dispatched'', ''InTransit'', ''Delivered''}"
    "status p1 \<notin> {''Dispatched'', ''InTransit'', ''Delivered''}"
    using assms(2) s1 by simp_all
  have first: "cancelParcel objectId now store parcelId userId = (Inr (Some p1), save p1 store)"
    using assms(1) ok(1) assms(3)
    by (rule cancelParcel_done) (simp add: p1_def assms(2) [symmetric])
  have found: "getParcelById objectId (save p1 store) parcelId = Some p1"
    using assms(1) by (rule getParcelById_save) (simp add: p1_def)
  have second: "cancelParcel objectId now' (save p1 store) parcelId userId'
                 = (Inr (Some p2), save p2 (save p1 store))"
    using found ok(2) assms(4)
    by (rule cancelParcel_done) (simp add: p2_def s1 [symmetric])
  have len: "length (statusLogs p2) = length (statusLogs p) + 2"
    by (simp add: p1_def p2_def)
  from first s1 second s2 len show ?thesis
    unfolding Let_def p1_def p2_def by blast
qed

theorem cancelParcel_again_witness:
  "cancelParcel hexObjectId 2000 [exampleParcel ''Cancelled''] exampleId None
     = (Inr (Some ((exampleParcel ''Cancelled'')
               \<lparr>statusLogs := statusLogs (exampleParcel ''Cancelled'') @
                  [\<lparr> log_status = ''Cancelled'', log_timestamp = 2000,
                     log_note = Some ''Cancelled by user'', log_updatedBy = None \<rparr>]\<rparr>)),
        [(exampleParcel ''Cancelled'')
               \<lparr>statusLogs := statusLogs (exampleParcel ''Cancelled'') @
                  [\<lparr> log_status = ''Cancelled'', log_timestamp = 2000,
                     log_note = Some ''Cancelled by user'', log_updatedBy = None \<rparr>]\<rparr>])
   \<and> length (statusLogs (exampleParcel ''Cancelled'')) = 1"
  using cancelParcel_again [OF example_found, of "''Cancelled''" None None 2000 3000]
  by (simp add: Let_def wellFormedUser_def exampleParcel_def)

section \<open>Looking up by identifier\<close>

text \<open>
  Claim C8. \<open>getParcelById\<close> answers \<open>None\<close>, the "not found" of the handlers, for a
  string that is no valid identifier and for a valid identifier under which no parcel
  is stored. The answer carries no reason, so the two cases give the caller the same
  result.
\<close>

theorem getParcelById_not_found:
  "(\<not> isValid objectId ident \<longrightarrow> getParcelById objectId store ident = None)
   \<and> (objectId ident = Some oid \<and> oid \<notin> parcel_id ` set store \<longrightarrow>
        getParcelById objectId store ident = None)
   \<and> (\<not> isValid objectId malformed \<and> objectId unknown = Some oid \<and> oid \<notin> parcel_id ` set store \<longrightarrow>
        getParcelById objectId store malformed = getParcelById objectId store unknown)"
proof -
  have absent: "findById store oid = None" if "oid \<notin> parcel_id ` set store"
    using that by (simp add: findById_None)
  show ?thesis
    by (auto simp: getParcelById_def isValid_def absent)
qed

theorem getParcelById_not_found_witness:
  "getParcelById hexObjectId [exampleParcel ''Created''] ''not-an-id'' = None
   \<and> getParcelById hexObjectId [exampleParcel ''Created''] ''bbbbbbbbbbbbbbbbbbbbbbbb'' = None
   \<and> \<not> isValid hexObjectId ''not-an-id''
   \<and> hexObjectId ''bbbbbbbbbbbbbbbbbbbbbbbb'' = Some ''bbbbbbbbbbbbbbbbbbbbbbbb''"
proof -
  have a: "\<not> isValid hexObjectId ''not-an-id''"
    by (simp add: isValid_def hexObjectId_def)
  have b: "hexObjectId ''bbbbbbbbbbbbbbbbbbbbbbbb'' = Some ''bbbbbbbbbbbbbbbbbbbbbbbb''"
    by (simp add: hexObjectId_def isHexDigit_def toLowerCase_def)
  have c: "''bbbbbbbbbbbbbbbbbbbbbbbb'' \<notin> parcel_id ` set [exampleParcel ''Created'']"
    by (simp add: exampleParcel_def exampleId_def)
  from a b c
    getParcelById_not_found [where objectId = hexObjectId and ident = "''not-an-id''"
      and store = "[exampleParcel ''Created'']"]
    getParcelById_not_found [where objectId = hexObjectId
      and ident = "''bbbbbbbbbbbbbbbbbbbbbbbb''" and oid = "''bbbbbbbbbbbbbbbbbbbbbbbb''"
      and store = "[exampleParcel ''Created'']"]
  show ?thesis by blast
qed

section \<open>Updating the status\<close>

lemma updateParcelStatus_done:
  assumes "getParcelById objectId store parcelId = Some p"
    and "wellFormedUser objectId updatedBy"
    and "p' = p\<lparr>status := newStatus,
                 statusLogs := statusLogs p @
                   [\<lparr> log_status = newStatus, log_timestamp = now, log_note = note,
                      log_updatedBy = Option.bind updatedBy objectId \<rparr>]\<rparr>"
  shows "updateParcelStatus objectId now store parcelId newStatus updatedBy note
           = (Inr (Some p'), save p' store)"
  using assms
  by (simp add: updateParcelStatus_def setUpdatedBy_wellFormed pushAndSave_def Let_def)

lemma updateParcelStatus_null:
  assumes "getParcelById objectId store parcelId = None"
  shows "updateParcelStatus objectId now store parcelId newStatus updatedBy note = (Inr None, store)"
  using assms by (simp add: updateParcelStatus_def)

text \<open>
  Outside the contract: a supplied acting user that the driver refuses makes the
  constructor throw before anything is saved.
\<close>

lemma updateParcelStatus_malformed_user:
  assumes "getParcelById objectId store parcelId = Some p"
    and "u \<noteq> []" and "\<not> isValid objectId u"
  shows "updateParcelStatus objectId now store parcelId newStatus (Some u) note
           = (Inl BSONError, store)"
  using assms by (simp add: updateParcelStatus_def isValid_def)

text \<open>
  Claim C4. For the parcel \<open>p\<close> stored under \<open>parcelId\<close>, any new status and an acting
  user that is absent or a validated identifier, \<open>updateParcelStatus\<close> looks at nothing
  but the arguments: whatever the current status, the parcel returned and stored has
  the new status and the old logs followed by exactly one entry, which carries the new
  status, the current time and the optional note, and whose \<open>updatedBy\<close> is set exactly
  when a user was supplied. When no parcel is stored under \<open>parcelId\<close> the operation
  answers \<open>None\<close> and changes nothing, and the handler reports "Parcel not found"
  with code 404.
\<close>

theorem updateParcelStatus_effect:
  "(getParcelById objectId store parcelId = Some p \<and> wellFormedUser objectId updatedBy \<longrightarrow>
      (let entry = \<lparr> log_status = newStatus, log_timestamp = now, log_note = note,
                      log_updatedBy = Option.bind updatedBy objectId \<rparr>;
           p' = p\<lparr>status := newStatus, statusLogs := statusLogs p @ [entry]\<rparr>
       in updateParcelStatus objectId now store parcelId newStatus updatedBy note
            = (Inr (Some p'), save p' store)
          \<and> getParcelById objectId (save p' store) parcelId = Some p'
          \<and> (log_updatedBy entry \<noteq> None) = (updatedBy \<noteq> None)))
   \<and> (getParcelById objectId store parcelId = None \<longrightarrow>
        updateParcelStatus objectId now store parcelId newStatus updatedBy note
          = (Inr None, store))
   \<and> (getParcelById objectId store parcelId = None
        \<and> truthy (req_user_id req) \<noteq> None
        \<and> truthy (req_params_id req) = Some parcelId
        \<and> truthy (req_body_status req) \<noteq> None \<longrightarrow>
        updateStatusHandler objectId now store req
          = (Response 404 ''fail'' (Message ''Parcel not found''), store))"
proof (intro conjI impI)
  assume h: "getParcelById objectId store parcelId = Some p \<and> wellFormedUser objectId updatedBy"
  define entry where "entry = \<lparr> log_status = newStatus, log_timestamp = now, log_note = note,
                      log_updatedBy = Option.bind updatedBy objectId \<rparr>"
  define p' where "p' = p\<lparr>status := newStatus, statusLogs := statusLogs p @ [entry]\<rparr>"
  have 1: "updateParcelStatus objectId now store parcelId newStatus updatedBy note
            = (Inr (Some p'), save p' store)"
    using h by (intro updateParcelStatus_done) (simp_all add: p'_def entry_def)
  have 2: "getParcelById objectId (save p' store) parcelId = Some p'"
    using h by (intro getParcelById_save [where p = p]) (simp_all add: p'_def)
  have 3: "(log_updatedBy entry \<noteq> None) = (updatedBy \<noteq> None)"
    using h by (simp only: entry_def statusLog.simps wellFormedUser_supplied)
  from 1 2 3 show "let entry = \<lparr> log_status = newStatus, log_timestamp = now, log_note = note,
                      log_updatedBy = Option.bind updatedBy objectId \<rparr>;
           p' = p\<lparr>status := newStatus, statusLogs := statusLogs p @ [entry]\<rparr>
       in updateParcelStatus objectId now store parcelId newStatus updatedBy note
            = (Inr (Some p'), save p' store)
          \<and> getParcelById objectId (save p' store) parcelId = Some p'
          \<and> (log_updatedBy entry \<noteq> None) = (updatedBy \<noteq> None)"
    unfolding Let_def p'_def entry_def by blast
next
  assume "getParcelById objectId store parcelId = None"
  then show "updateParcelStatus objectId now store parcelId newStatus updatedBy note
          = (Inr None, store)"
    by (rule updateParcelStatus_null)
next
  assume h: "getParcelById objectId store parcelId = None
        \<and> truthy (req_user_id req) \<noteq> None
        \<and> truthy (req_params_id req) = Some parcelId
        \<and> truthy (req_body_status req) \<noteq> None"
  then obtain u st where "truthy (req_user_id req) = Some u" "truthy (req_body_status req) = Some st"
    by auto
  with h show "updateStatusHandler objectId now store req
          = (Response 404 ''fail'' (Message ''Parcel not found''), store)"
    by (simp add: updateStatusHandler_def updateParcelStatus_null)
qed

theorem updateParcelStatus_effect_witness:
  "updateParcelStatus hexObjectId 2000 [exampleParcel ''Delivered''] exampleId ''Created''
       (Some exampleSender) (Some ''back to start'')
     = (Inr (Some ((exampleParcel ''Delivered'')
               \<lparr>status := ''Created'',
                statusLogs := statusLogs (exampleParcel ''Delivered'') @
                  [\<lparr> log_status = ''Created'', log_timestamp = 2000,
                     log_note = Some ''back to start'',
                     log_updatedBy = Some exampleSender \<rparr>]\<rparr>)),
        [(exampleParcel ''Delivered'')
               \<lparr>status := ''Created'',
                statusLogs := statusLogs (exampleParcel ''Delivered'') @
                  [\<lparr> log_status = ''Created'', log_timestamp = 2000,
                     log_note = Some ''back to start'',
                     log_updatedBy = Some exampleSender \<rparr>]\<rparr>])
   \<and> updateParcelStatus hexObjectId 2000 [] exampleId ''Created'' None None = (Inr None, [])
   \<and> updateStatusHandler hexObjectId 2000 []
        (emptyRequest\<lparr>req_user_id := Some exampleSender, req_params_id := Some exampleId,
                      req_body_status := Some ''Dispatched''\<rparr>)
       = (Response 404 ''fail'' (Message ''Parcel not found''), [])"
proof -
  have none: "getParcelById hexObjectId [] exampleId = None"
    by (simp add: getParcelById_def findById_def split: option.split)
  have req: "truthy (req_user_id (emptyRequest\<lparr>req_user_id := Some exampleSender,
                 req_params_id := Some exampleId, req_body_status := Some ''Dispatched''\<rparr>)) \<noteq> None"
    "truthy (req_params_id (emptyRequest\<lparr>req_user_id := Some exampleSender,
                 req_params_id := Some exampleId, req_body_status := Some ''Dispatched''\<rparr>)) = Some exampleId"
    "truthy (req_body_status (emptyRequest\<lparr>req_user_id := Some exampleSender,
                 req_params_id := Some exampleId, req_body_status := Some ''Dispatched''\<rparr>)) \<noteq> None"
    by (simp_all add: exampleSender_def exampleId_def)
  from example_found [of "''Delivered''"] example_user none req
    updateParcelStatus_effect [where objectId = hexObjectId and store = "[exampleParcel ''Delivered'']"
      and parcelId = exampleId and p = "exampleParcel ''Delivered''" and updatedBy = "Some exampleSender"
      and newStatus = "''Created''" and now = 2000 and ?note = "Some ''back to start''"]
    updateParcelStatus_effect [where objectId = hexObjectId and store = "[]"
      and parcelId = exampleId and updatedBy = None
      and newStatus = "''Created''" and now = 2000 and ?note = None
      and req = "emptyRequest\<lparr>req_user_id := Some exampleSender,
                 req_params_id := Some exampleId, req_body_status := Some ''Dispatched''\<rparr>"]
  show ?thesis
    by (simp add: Let_def example_user_oid exampleParcel_def)
qed

text \<open>
  Claim C10. The new status is a string like any other: for every string, inside or
  outside the five statuses of the data model, \<open>updateParcelStatus\<close> on a stored
  parcel (the acting user being absent or a validated identifier) succeeds without
  looking at the string, the parcel returned and stored has that very string as its
  status, and the entry appended to the old logs records the same string.
\<close>

theorem updateParcelStatus_any_string:
  assumes "getParcelById objectId store parcelId = Some p"
    and "wellFormedUser objectId updatedBy"
  shows "(case updateParcelStatus objectId now store parcelId newStatus updatedBy note of
            (Inr (Some p'), store') \<Rightarrow>
              status p' = newStatus
              \<and> statusLogs p' = statusLogs p @ [last (statusLogs p')]
              \<and> log_status (last (statusLogs p')) = newStatus
              \<and> getParcelById objectId store' parcelId = Some p'
          | _ \<Rightarrow> False)"
proof -
  define p' where "p' = p\<lparr>status := newStatus,
                 statusLogs := statusLogs p @
                   [\<lparr> log_status = newStatus, log_timestamp = now, log_note = note,
                      log_updatedBy = Option.bind updatedBy objectId \<rparr>]\<rparr>"
  have run: "updateParcelStatus objectId now store parcelId newStatus updatedBy note
              = (Inr (Some p'), save p' store)"
    using assms p'_def by (rule updateParcelStatus_done)
  have stored: "getParcelById objectId (save p' store) parcelId = Some p'"
    using assms(1) by (rule getParcelById_save) (simp add: p'_def)
  show ?thesis
    unfolding run using stored by (simp add: p'_def)
qed

theorem updateParcelStatus_any_string_witness:
  "updateParcelStatus hexObjectId 2000 [exampleParcel ''Created''] exampleId ''Lost at sea''
       None None
     = (Inr (Some ((exampleParcel ''Created'')
               \<lparr>status := ''Lost at sea'',
                statusLogs := statusLogs (exampleParcel ''Created'') @
                  [\<lparr> log_status = ''Lost at sea'', log_timestamp = 2000,
                     log_note = None, log_updatedBy = None \<rparr>]\<rparr>)),
        [(exampleParcel ''Created'')
               \<lparr>status := ''Lost at sea'',
                statusLogs := statusLogs (exampleParcel ''Created'') @
                  [\<lparr> log_status = ''Lost at sea'', log_timestamp = 2000,
                     log_note = None, log_updatedBy = None \<rparr>]\<rparr>])
   \<and> ''Lost at sea'' \<notin> set [''Created'', ''Dispatched'', ''InTransit'', ''Delivered'', ''Cancelled'']"
proof -
  have user: "wellFormedUser hexObjectId None"
    by (simp add: wellFormedUser_def)
  have run: "updateParcelStatus hexObjectId 2000 [exampleParcel ''Created''] exampleId
       ''Lost at sea'' None None
     = (Inr (Some ((exampleParcel ''Created'')
               \<lparr>status := ''Lost at sea'',
                statusLogs := statusLogs (exampleParcel ''Created'') @
                  [\<lparr> log_status = ''Lost at sea'', log_timestamp = 2000,
                     log_note = None, log_updatedBy = None \<rparr>]\<rparr>)),
        [(exampleParcel ''Created'')
               \<lparr>status := ''Lost at sea'',
                statusLogs := statusLogs (exampleParcel ''Created'') @
                  [\<lparr> log_status = ''Lost at sea'', log_timestamp = 2000,
                     log_note = None, log_updatedBy = None \<rparr>]\<rparr>])"
    by (simp add: updateParcelStatus_def example_found pushAndSave_def)
      (simp add: exampleParcel_def Let_def)
  from updateParcelStatus_any_string [OF example_found [of "''Created''"] user,
      where now = 2000 and newStatus = "''Lost at sea''" and ?note = None] run
  show ?thesis by simp
qed

text \<open>
  The handler hands a non-empty status of the body to the service as it is; only an
  absent or empty one is refused, with "Missing status".
\<close>

lemma updateStatusHandler_any_string:
  assumes "getParcelById objectId store parcelId = Some p"
    and "truthy (req_user_id req) = Some u" and "isValid objectId u"
    and "truthy (req_params_id req) = Some parcelId"
    and "truthy (req_body_status req) = Some newStatus"
    and "p' = p\<lparr>status := newStatus,
                 statusLogs := statusLogs p @
                   [\<lparr> log_status = newStatus, log_timestamp = now,
                      log_note = req_body_note req, log_updatedBy = objectId u \<rparr>]\<rparr>"
  shows "updateStatusHandler objectId now store req
           = (Response 200 ''success'' (Data p'), save p' store)"
proof -
  have "u \<noteq> []"
    using assms(2) by (cases "req_user_id req") (auto split: if_splits)
  with assms(3) have "wellFormedUser objectId (Some u)"
    by (simp add: wellFormedUser_def)
  with assms(1) have "updateParcelStatus objectId now store parcelId newStatus (Some u)
      (req_body_note req) = (Inr (Some p'), save p' store)"
    by (rule updateParcelStatus_done) (simp add: assms(6))
  with assms(2,4,5) show ?thesis
    by (simp add: updateStatusHandler_def)
qed

lemma updateStatusHandler_missing_status:
  assumes "truthy (req_user_id req) = Some u" and "truthy (req_params_id req) = Some parcelId"
    and "truthy (req_body_status req) = None"
  shows "updateStatusHandler objectId now store req
           = (Response 400 ''fail'' (Message ''Missing status''), store)"
  using assms by (simp add: updateStatusHandler_def)

section \<open>Creating\<close>

lemma createParcel_stored:
  assumes "objectId (dto_senderId dto) = Some sender"
    and "objectId (dto_receiverId dto) = Some receiver"
    and "\<not> list_ex (\<lambda>q. trackingId q = newTrackingId \<or> parcel_id q = newId) store"
    and "p = \<lparr> parcel_id = newId, trackingId = newTrackingId, senderId = sender,
               receiverId = receiver, origin = dto_origin dto,
               destination = dto_destination dto, weight = dto_weight dto,
               price = dto_price dto, status = ''Created'',
               statusLogs = [\<lparr> log_status = ''Created'', log_timestamp = now,
                               log_note = Some (noteOrDefault (dto_note dto)),
                               log_updatedBy = Some sender \<rparr>],
               createdAt = now \<rparr>"
  shows "createParcel objectId now newTrackingId newId store dto = (Inr p, store @ [p])"
  using assms by (simp add: createParcel_def Parcel_create_def Let_def)

lemma createParcel_Inr:
  assumes "createParcel objectId now newTrackingId newId store dto = (Inr p, store')"
  shows "\<exists>sender receiver.
           objectId (dto_senderId dto) = Some sender
           \<and> objectId (dto_receiverId dto) = Some receiver
           \<and> \<not> list_ex (\<lambda>q. trackingId q = newTrackingId \<or> parcel_id q = newId) store
           \<and> store' = store @ [p]
           \<and> p = \<lparr> parcel_id = newId, trackingId = newTrackingId, senderId = sender,
                  receiverId = receiver, origin = dto_origin dto,
                  destination = dto_destination dto, weight = dto_weight dto,
                  price = dto_price dto, status = ''Created'',
                  statusLogs = [\<lparr> log_status = ''Created'', log_timestamp = now,
                                  log_note = Some (noteOrDefault (dto_note dto)),
                                  log_updatedBy = Some sender \<rparr>],
                  createdAt = now \<rparr>"
  using assms
  by (auto simp: createParcel_def Parcel_create_def Let_def split: option.splits if_splits)

lemma createParcel_Inl:
  assumes "createParcel objectId now newTrackingId newId store dto = (Inl e, store')"
  shows "store' = store"
  using assms
  by (auto simp: createParcel_def Parcel_create_def Let_def split: option.splits if_splits)

text \<open>
  Claim C5, as the code has it. A creation input is valid when the driver accepts the
  sender and the receiver and neither the generated tracking identifier nor the new
  document identifier is taken. For every such input \<open>createParcel\<close> returns a parcel
  with status Created and exactly one log entry: its status is Created, its
  \<open>updatedBy\<close> is the sender's identifier, and its note is the caller's note when a
  non-empty one was given and "Parcel created" otherwise. (An empty note is falsy and
  gets the default; the claim as stated would keep it.)
\<close>

theorem createParcel_initial_state:
  assumes "objectId (dto_senderId dto) = Some sender"
    and "objectId (dto_receiverId dto) = Some receiver"
    and "\<not> list_ex (\<lambda>q. trackingId q = newTrackingId \<or> parcel_id q = newId) store"
  shows "(case createParcel objectId now newTrackingId newId store dto of
            (Inr p, store') \<Rightarrow>
              status p = ''Created''
              \<and> statusLogs p =
                  [\<lparr> log_status = ''Created'', log_timestamp = now,
                     log_note = Some (case dto_note dto of
                                        None \<Rightarrow> ''Parcel created''
                                      | Some n \<Rightarrow> if n = [] then ''Parcel created'' else n),
                     log_updatedBy = Some sender \<rparr>]
              \<and> store' = store @ [p]
          | _ \<Rightarrow> False)"
proof -
  have note_eq: "noteOrDefault (dto_note dto)
      = (case dto_note dto of None \<Rightarrow> ''Parcel created''
         | Some n \<Rightarrow> if n = [] then ''Parcel created'' else n)"
    by (cases "dto_note dto") simp_all
  show ?thesis
    using assms by (simp add: createParcel_stored [OF assms refl] note_eq)
qed

lemma example_receiver_oid: "hexObjectId exampleReceiver = Some exampleReceiver"
  by (simp add: hexObjectId_def exampleReceiver_def isHexDigit_def toLowerCase_def)

theorem createParcel_initial_state_witness:
  "createParcel hexObjectId 1000 ''TRK-1'' exampleId [] (exampleDTO (Some ''Fragile''))
     = (Inr ((exampleParcel ''Created'')
               \<lparr>statusLogs := [\<lparr> log_status = ''Created'', log_timestamp = 1000,
                                 log_note = Some ''Fragile'',
                                 log_updatedBy = Some exampleSender \<rparr>]\<rparr>),
        [(exampleParcel ''Created'')
               \<lparr>statusLogs := [\<lparr> log_status = ''Created'', log_timestamp = 1000,
                                 log_note = Some ''Fragile'',
                                 log_updatedBy = Some exampleSender \<rparr>]\<rparr>])"
proof -
  have s: "hexObjectId (dto_senderId (exampleDTO (Some ''Fragile''))) = Some exampleSender"
    and r: "hexObjectId (dto_receiverId (exampleDTO (Some ''Fragile''))) = Some exampleReceiver"
    by (simp_all add: exampleDTO_def example_user_oid example_receiver_oid)
  have free: "\<not> list_ex (\<lambda>q. trackingId q = ''TRK-1'' \<or> parcel_id q = exampleId) ([] :: string parcel list)"
    by simp
  have run: "createParcel hexObjectId 1000 ''TRK-1'' exampleId [] (exampleDTO (Some ''Fragile''))
     = (Inr ((exampleParcel ''Created'')
               \<lparr>statusLogs := [\<lparr> log_status = ''Created'', log_timestamp = 1000,
                                 log_note = Some ''Fragile'',
                                 log_updatedBy = Some exampleSender \<rparr>]\<rparr>),
        [(exampleParcel ''Created'')
               \<lparr>statusLogs := [\<lparr> log_status = ''Created'', log_timestamp = 1000,
                                 log_note = Some ''Fragile'',
                                 log_updatedBy = Some exampleSender \<rparr>]\<rparr>])"
    by (simp add: createParcel_def Parcel_create_def Let_def s r)
      (simp add: exampleDTO_def exampleParcel_def)
  from createParcel_initial_state [OF s r free, of 1000] run
  show ?thesis by simp
qed

text \<open>
  The claim as stated fails on an empty note: the caller gave the note \<open>''''\<close>, and
  the entry of the parcel that is created carries "Parcel created".
\<close>

theorem createParcel_empty_note_counterexample:
  "dto_note (exampleDTO (Some '''')) = Some ''''
   \<and> createParcel hexObjectId 1000 ''TRK-1'' exampleId [] (exampleDTO (Some ''''))
       = (Inr (exampleParcel ''Created''), [exampleParcel ''Created''])
   \<and> map log_note (statusLogs (exampleParcel ''Created'')) = [Some ''Parcel created'']"
proof -
  have s: "hexObjectId (dto_senderId (exampleDTO (Some ''''))) = Some exampleSender"
    and r: "hexObjectId (dto_receiverId (exampleDTO (Some ''''))) = Some exampleReceiver"
    by (simp_all add: exampleDTO_def example_user_oid example_receiver_oid)
  have "createParcel hexObjectId 1000 ''TRK-1'' exampleId [] (exampleDTO (Some ''''))
       = (Inr (exampleParcel ''Created''), [exampleParcel ''Created''])"
    by (simp add: createParcel_def Parcel_create_def Let_def s r)
      (simp add: exampleDTO_def exampleParcel_def)
  then show ?thesis
    by (simp add: exampleDTO_def exampleParcel_def)
qed

text \<open>
  Claim C7, as the code has it. The handler refuses a creation request before it calls
  the service, and creates nothing, in two ways. When the request carries no
  authenticated user identifier, which is where the sender comes from, the answer is
  401 "Not authenticated", not a validation failure. When the user is there and the
  receiver, the origin or the destination is absent (or empty), the answer is the
  validation failure 400 "Missing required parcel fields".
\<close>

theorem createParcelHandler_missing_fields:
  "(truthy (req_user_id req) = None \<longrightarrow>
      createParcelHandler objectId now newTrackingId newId store req
        = (Response 401 ''fail'' (Message ''Not authenticated''), store))
   \<and> (truthy (req_user_id req) \<noteq> None
        \<and> (truthy (req_body_receiverId req) = None
            \<or> truthy (req_body_origin req) = None
            \<or> truthy (req_body_destination req) = None) \<longrightarrow>
      createParcelHandler objectId now newTrackingId newId store req
        = (Response 400 ''fail'' (Message ''Missing required parcel fields''), store))"
  by (auto simp: createParcelHandler_def split: option.splits)

theorem createParcelHandler_missing_fields_witness:
  "createParcelHandler hexObjectId 1000 ''TRK-1'' exampleId []
      (emptyRequest\<lparr>req_user_id := Some exampleSender, req_body_receiverId := Some exampleReceiver,
                    req_body_destination := Some ''Abuja''\<rparr>)
     = (Response 400 ''fail'' (Message ''Missing required parcel fields''), [])
   \<and> createParcelHandler hexObjectId 1000 ''TRK-1'' exampleId [] emptyRequest
     = (Response 401 ''fail'' (Message ''Not authenticated''), [])"
proof -
  have a: "truthy (req_user_id (emptyRequest\<lparr>req_user_id := Some exampleSender,
              req_body_receiverId := Some exampleReceiver,
              req_body_destination := Some ''Abuja''\<rparr>)) \<noteq> None"
    by (simp add: exampleSender_def)
  have b: "truthy (req_body_origin (emptyRequest\<lparr>req_user_id := Some exampleSender,
              req_body_receiverId := Some exampleReceiver,
              req_body_destination := Some ''Abuja''\<rparr>)) = None"
    by (simp add: emptyRequest_def)
  have c: "truthy (req_user_id emptyRequest) = None"
    by (simp add: emptyRequest_def)
  from a b c
    createParcelHandler_missing_fields [where req = "emptyRequest\<lparr>req_user_id := Some exampleSender,
              req_body_receiverId := Some exampleReceiver,
              req_body_destination := Some ''Abuja''\<rparr>" and objectId = hexObjectId and now = 1000
              and newTrackingId = "''TRK-1''" and newId = exampleId and store = "[]"]
    createParcelHandler_missing_fields [where req = emptyRequest and objectId = hexObjectId
              and now = 1000 and newTrackingId = "''TRK-1''" and newId = exampleId and store = "[]"]
  show ?thesis by blast
qed

text \<open>
  The claim as stated fails when it is the sender that is absent: the body is complete,
  no user is attached, and the answer is 401 "Not authenticated" rather than the
  validation failure.
\<close>

theorem createParcelHandler_no_sender_counterexample:
  "createParcelHandler hexObjectId 1000 ''TRK-1'' exampleId []
      (emptyRequest\<lparr>req_body_receiverId := Some exampleReceiver,
                    req_body_origin := Some ''Lagos'',
                    req_body_destination := Some ''Abuja''\<rparr>)
     = (Response 401 ''fail'' (Message ''Not authenticated''), [])
   \<and> Response 401 ''fail'' (Message ''Not authenticated'')
       \<noteq> (Response 400 ''fail'' (Message ''Missing required parcel fields'') :: string response)"
  by (simp add: createParcelHandler_def emptyRequest_def)

section \<open>What a call does to the collection\<close>

lemma set_save: "set (save p store) \<subseteq> insert p (set store)"
  by (induction store) auto

lemma findById_append:
  "findById (store @ [p]) oid =
     (case findById store oid of
        None \<Rightarrow> if parcel_id p = oid then Some p else None
      | Some q \<Rightarrow> Some q)"
  unfolding findById_def by (induction store) auto

lemma setUpdatedBy_Inr:
  assumes "setUpdatedBy objectId userId entry = Inr entry'"
  shows "log_status entry' = log_status entry \<and> log_timestamp entry' = log_timestamp entry
         \<and> log_note entry' = log_note entry"
  using assms by (cases userId) (auto split: if_splits option.splits)

lemma updateParcelStatus_Inr:
  assumes "updateParcelStatus objectId now store parcelId newStatus updatedBy note
             = (Inr (Some p), store')"
  shows "\<exists>p0 entry. getParcelById objectId store parcelId = Some p0
           \<and> p = p0\<lparr>status := newStatus, statusLogs := statusLogs p0 @ [entry]\<rparr>
           \<and> log_status entry = newStatus \<and> log_timestamp entry = now \<and> log_note entry = note
           \<and> store' = save p store"
  using assms
  by (auto simp: updateParcelStatus_def pushAndSave_def Let_def
      split: option.splits sum.splits dest!: setUpdatedBy_Inr)

lemma updateParcelStatus_no_parcel:
  assumes "updateParcelStatus objectId now store parcelId newStatus updatedBy note = (r, store')"
    and "\<forall>p. r \<noteq> Inr (Some p)"
  shows "store' = store"
  using assms
  by (auto simp: updateParcelStatus_def pushAndSave_def Let_def
      split: option.splits sum.splits)

lemma cancelParcel_Inr:
  assumes "cancelParcel objectId now store parcelId userId = (Inr (Some p), store')"
  shows "\<exists>p0 entry. getParcelById objectId store parcelId = Some p0
           \<and> status p0 \<notin> {''Dispatched'', ''InTransit'', ''Delivered''}
           \<and> p = p0\<lparr>status := ''Cancelled'', statusLogs := statusLogs p0 @ [entry]\<rparr>
           \<and> log_status entry = ''Cancelled'' \<and> log_timestamp entry = now
           \<and> log_note entry = Some ''Cancelled by user''
           \<and> store' = save p store"
  using assms
  by (auto simp: cancelParcel_def pushAndSave_def Let_def
      split: option.splits sum.splits if_splits dest!: setUpdatedBy_Inr)

lemma cancelParcel_no_parcel:
  assumes "cancelParcel objectId now store parcelId userId = (r, store')"
    and "\<forall>p. r \<noteq> Inr (Some p)"
  shows "store' = store"
  using assms
  by (auto simp: cancelParcel_def pushAndSave_def Let_def
      split: option.splits sum.splits if_splits)

section \<open>The status is the one of the last log entry\<close>

lemma createParcel_statusIsLastLog:
  assumes "createParcel objectId now newTrackingId newId store dto = (Inr p, store')"
  shows "statusIsLastLog p"
  using createParcel_Inr [OF assms] by (auto simp: statusIsLastLog_def)

lemma updateParcelStatus_statusIsLastLog:
  assumes "updateParcelStatus objectId now store parcelId newStatus updatedBy note
             = (Inr (Some p), store')"
  shows "statusIsLastLog p \<and> getParcelById objectId store' parcelId = Some p"
proof -
  from updateParcelStatus_Inr [OF assms] obtain p0 entry where
    f: "getParcelById objectId store parcelId = Some p0" and
    p: "p = p0\<lparr>status := newStatus, statusLogs := statusLogs p0 @ [entry]\<rparr>" and
    e: "log_status entry = newStatus" and s: "store' = save p store"
    by blast
  have "getParcelById objectId (save p store) parcelId = Some p"
    using f by (rule getParcelById_save) (simp add: p)
  with p e s show ?thesis by (simp add: statusIsLastLog_def)
qed

lemma cancelParcel_statusIsLastLog:
  assumes "cancelParcel objectId now store parcelId userId = (Inr (Some p), store')"
  shows "statusIsLastLog p \<and> getParcelById objectId store' parcelId = Some p"
proof -
  from cancelParcel_Inr [OF assms] obtain p0 entry where
    f: "getParcelById objectId store parcelId = Some p0" and
    p: "p = p0\<lparr>status := ''Cancelled'', statusLogs := statusLogs p0 @ [entry]\<rparr>" and
    e: "log_status entry = ''Cancelled''" and s: "store' = save p store"
    by blast
  have "getParcelById objectId (save p store) parcelId = Some p"
    using f by (rule getParcelById_save) (simp add: p)
  with p e s show ?thesis by (simp add: statusIsLastLog_def)
qed

lemma perform_statusIsLastLog:
  assumes "\<forall>q \<in> set store. statusIsLastLog q"
  shows "\<forall>q \<in> set (snd (perform objectId now store c)). statusIsLastLog q"
proof (cases c)
  case (CreateParcel dto newTrackingId newId)
  show ?thesis
  proof (cases "createParcel objectId now newTrackingId newId store dto")
    case (Pair r store')
    show ?thesis
    proof (cases r)
      case (Inl e)
      with Pair have "store' = store" by (simp add: createParcel_Inl)
      with assms Pair Inl CreateParcel show ?thesis by simp
    next
      case (Inr p)
      with Pair have c: "createParcel objectId now newTrackingId newId store dto = (Inr p, store')"
        by simp
      have "statusIsLastLog p"
        using c by (rule createParcel_statusIsLastLog)
      moreover have "store' = store @ [p]"
        using createParcel_Inr [OF c] by blast
      ultimately have "statusIsLastLog p" and "store' = store @ [p]" .
      with assms Pair Inr CreateParcel show ?thesis by simp
    qed
  qed
next
  case (UpdateParcelStatus parcelId newStatus updatedBy annotation)
  show ?thesis
  proof (cases "updateParcelStatus objectId now store parcelId newStatus updatedBy annotation")
    case (Pair r store')
    show ?thesis
    proof (cases "\<exists>p. r = Inr (Some p)")
      case True
      then obtain p where r: "r = Inr (Some p)" by blast
      with Pair have c: "updateParcelStatus objectId now store parcelId newStatus updatedBy annotation
          = (Inr (Some p), store')"
        by simp
      have "statusIsLastLog p"
        using updateParcelStatus_statusIsLastLog [OF c] by blast
      moreover have "store' = save p store"
        using updateParcelStatus_Inr [OF c] by blast
      ultimately have "statusIsLastLog p" and "store' = save p store" .
      with assms set_save [of p store] Pair UpdateParcelStatus show ?thesis by auto
    next
      case False
      with Pair have "store' = store" by (auto dest: updateParcelStatus_no_parcel)
      with assms Pair UpdateParcelStatus show ?thesis by simp
    qed
  qed
next
  case (CancelParcel parcelId userId)
  show ?thesis
  proof (cases "cancelParcel objectId now store parcelId userId")
    case (Pair r store')
    show ?thesis
    proof (cases "\<exists>p. r = Inr (Some p)")
      case True
      then obtain p where r: "r = Inr (Some p)" by blast
      with Pair have c: "cancelParcel objectId now store parcelId userId = (Inr (Some p), store')"
        by simp
      have "statusIsLastLog p"
        using cancelParcel_statusIsLastLog [OF c] by blast
      moreover have "store' = save p store"
        using cancelParcel_Inr [OF c] by blast
      ultimately have "statusIsLastLog p" and "store' = save p store" .
      with assms set_save [of p store] Pair CancelParcel show ?thesis by auto
    next
      case False
      with Pair have "store' = store" by (auto dest: cancelParcel_no_parcel)
      with assms Pair CancelParcel show ?thesis by simp
    qed
  qed
qed

lemma performAll_statusIsLastLog:
  "\<forall>q \<in> set store. statusIsLastLog q \<Longrightarrow>
     \<forall>q \<in> set (performAll objectId store calls). statusIsLastLog q"
proof (induction calls arbitrary: store)
  case Nil
  then show ?case by simp
next
  case (Cons a calls)
  obtain now c where a: "a = (now, c)" by (cases a)
  from Cons.prems have "\<forall>q \<in> set (snd (perform objectId now store c)). statusIsLastLog q"
    by (rule perform_statusIsLastLog)
  then show ?case unfolding a by (simp add: Cons.IH)
qed

text \<open>
  Claim C2. The parcel that \<open>createParcel\<close> returns, and the parcel that a successful
  \<open>updateParcelStatus\<close> or \<open>cancelParcel\<close> returns and stores under the identifier it was
  called with, has a non-empty log whose last entry carries the parcel's status. So
  does every parcel of a collection that sequences of the three operations build from
  the empty one.
\<close>

theorem status_is_last_log:
  "(createParcel objectId now newTrackingId newId store dto = (Inr p, store') \<longrightarrow>
      statusLogs p \<noteq> [] \<and> status p = log_status (last (statusLogs p)))
   \<and> (updateParcelStatus objectId now store parcelId newStatus updatedBy note
         = (Inr (Some p), store') \<longrightarrow>
      statusLogs p \<noteq> [] \<and> status p = log_status (last (statusLogs p))
      \<and> getParcelById objectId store' parcelId = Some p)
   \<and> (cancelParcel objectId now store parcelId userId = (Inr (Some p), store') \<longrightarrow>
      statusLogs p \<noteq> [] \<and> status p = log_status (last (statusLogs p))
      \<and> getParcelById objectId store' parcelId = Some p)
   \<and> (\<forall>q \<in> set (performAll objectId [] calls).
        statusLogs q \<noteq> [] \<and> status q = log_status (last (statusLogs q)))"
proof -
  have created: "createParcel objectId now newTrackingId newId store dto = (Inr p, store') \<longrightarrow>
      statusLogs p \<noteq> [] \<and> status p = log_status (last (statusLogs p))"
  proof
    assume "createParcel objectId now newTrackingId newId store dto = (Inr p, store')"
    then have "statusIsLastLog p" by (rule createParcel_statusIsLastLog)
    then show "statusLogs p \<noteq> [] \<and> status p = log_status (last (statusLogs p))"
      by (simp add: statusIsLastLog_def)
  qed
  have updated: "updateParcelStatus objectId now store parcelId newStatus updatedBy note
         = (Inr (Some p), store') \<longrightarrow>
      statusLogs p \<noteq> [] \<and> status p = log_status (last (statusLogs p))
      \<and> getParcelById objectId store' parcelId = Some p"
  proof
    assume "updateParcelStatus objectId now store parcelId newStatus updatedBy note
         = (Inr (Some p), store')"
    then have "statusIsLastLog p \<and> getParcelById objectId store' parcelId = Some p"
      by (rule updateParcelStatus_statusIsLastLog)
    then show "statusLogs p \<noteq> [] \<and> status p = log_status (last (statusLogs p))
        \<and> getParcelById objectId store' parcelId = Some p"
      by (simp add: statusIsLastLog_def)
  qed
  have cancelled: "cancelParcel objectId now store parcelId userId = (Inr (Some p), store') \<longrightarrow>
      statusLogs p \<noteq> [] \<and> status p = log_status (last (statusLogs p))
      \<and> getParcelById objectId store' parcelId = Some p"
  proof
    assume "cancelParcel objectId now store parcelId userId = (Inr (Some p), store')"
    then have "statusIsLastLog p \<and> getParcelById objectId store' parcelId = Some p"
      by (rule cancelParcel_statusIsLastLog)
    then show "statusLogs p \<noteq> [] \<and> status p = log_status (last (statusLogs p))
        \<and> getParcelById objectId store' parcelId = Some p"
      by (simp add: statusIsLastLog_def)
  qed
  have "\<forall>q \<in> set (performAll objectId [] calls). statusIsLastLog q"
    by (rule performAll_statusIsLastLog) simp
  then have reachable: "\<forall>q \<in> set (performAll objectId [] calls).
        statusLogs q \<noteq> [] \<and> status q = log_status (last (statusLogs q))"
    by (simp add: statusIsLastLog_def)
  from created updated cancelled reachable show ?thesis
    by (intro conjI)
qed

lemma example_created:
  "createParcel hexObjectId 1000 ''TRK-1'' exampleId [] (exampleDTO None)
     = (Inr (exampleParcel ''Created''), [exampleParcel ''Created''])"
proof -
  have s: "hexObjectId (dto_senderId (exampleDTO None)) = Some exampleSender"
    and r: "hexObjectId (dto_receiverId (exampleDTO None)) = Some exampleReceiver"
    by (simp_all add: exampleDTO_def example_user_oid example_receiver_oid)
  show ?thesis
    by (simp add: createParcel_def Parcel_create_def Let_def s r)
      (simp add: exampleDTO_def exampleParcel_def)
qed

theorem status_is_last_log_witness:
  "createParcel hexObjectId 1000 ''TRK-1'' exampleId [] (exampleDTO None)
     = (Inr (exampleParcel ''Created''), [exampleParcel ''Created''])
   \<and> statusLogs (exampleParcel ''Created'') \<noteq> []
   \<and> status (exampleParcel ''Created'')
       = log_status (last (statusLogs (exampleParcel ''Created'')))
   \<and> list_all (\<lambda>q. statusLogs q \<noteq> [] \<and> status q = log_status (last (statusLogs q)))
        (performAll hexObjectId [] scenario)"
  using example_created
    status_is_last_log [where objectId = hexObjectId and now = 1000 and newTrackingId = "''TRK-1''"
      and newId = exampleId and store = "[]" and dto = "exampleDTO None"
      and p = "exampleParcel ''Created''" and store' = "[exampleParcel ''Created'']"
      and calls = scenario]
  unfolding list_all_iff by blast

lemma scenario_run:
  "performAll hexObjectId [] scenario
     = [(exampleParcel ''Created'')
          \<lparr>status := ''Dispatched'',
           statusLogs := statusLogs (exampleParcel ''Created'') @
             [\<lparr> log_status = ''Dispatched'', log_timestamp = 2000, log_note = None,
                log_updatedBy = None \<rparr>]\<rparr>]"
proof -
  have found2: "getParcelById hexObjectId
       [(exampleParcel ''Created'')
          \<lparr>status := ''Dispatched'',
           statusLogs := statusLogs (exampleParcel ''Created'') @
             [\<lparr> log_status = ''Dispatched'', log_timestamp = 2000, log_note = None,
                log_updatedBy = None \<rparr>]\<rparr>] exampleId
     = Some ((exampleParcel ''Created'')
          \<lparr>status := ''Dispatched'',
           statusLogs := statusLogs (exampleParcel ''Created'') @
             [\<lparr> log_status = ''Dispatched'', log_timestamp = 2000, log_note = None,
                log_updatedBy = None \<rparr>]\<rparr>)"
    using getParcelById_save [OF example_found [of "''Created''"],
        of "(exampleParcel ''Created'')
          \<lparr>status := ''Dispatched'',
           statusLogs := statusLogs (exampleParcel ''Created'') @
             [\<lparr> log_status = ''Dispatched'', log_timestamp = 2000, log_note = None,
                log_updatedBy = None \<rparr>]\<rparr>"]
    by (simp add: exampleParcel_def)
  show ?thesis
    by (simp add: scenario_def example_created updateParcelStatus_def example_found
        pushAndSave_def Let_def cancelParcel_def found2)
qed

section \<open>Status logs only grow\<close>

lemma logsOf_save_same:
  assumes "findById store oid = Some p0" and "parcel_id p = oid"
  shows "logsOf (save p store) oid = statusLogs p"
  using assms by (simp add: logsOf_def findById_save_same)

lemma logsOf_save_other:
  assumes "parcel_id p \<noteq> oid"
  shows "logsOf (save p store) oid = logsOf store oid"
  using assms by (simp add: logsOf_def findById_save_other)

lemma logsOf_append_other:
  assumes "parcel_id p \<noteq> oid"
  shows "logsOf (store @ [p]) oid = logsOf store oid"
  using assms by (simp add: logsOf_def findById_append split: option.split)

lemma logsOf_append_new:
  assumes "findById store (parcel_id p) = None"
  shows "logsOf (store @ [p]) (parcel_id p) = statusLogs p"
    and "logsOf store (parcel_id p) = []"
  using assms by (simp_all add: logsOf_def findById_append)

lemma list_ex_findById:
  assumes "\<not> list_ex (\<lambda>q. trackingId q = t \<or> parcel_id q = oid) store"
  shows "findById store oid = None"
  using assms by (auto simp: findById_None list_ex_iff)

lemma pushed_logs:
  assumes "getParcelById objectId store parcelId = Some p0"
    and "statusLogs p = statusLogs p0 @ [entry]" and "parcel_id p = parcel_id p0"
  shows "logsOf (save p store) (parcel_id p) = logsOf store (parcel_id p) @ [last (statusLogs p)]"
proof -
  from assms(1) obtain oid where f: "findById store oid = Some p0"
    using getParcelById_Some by blast
  then have oid: "parcel_id p0 = oid" by (rule findById_parcel_id)
  with f assms(3) have "logsOf (save p store) (parcel_id p) = statusLogs p"
    by (simp add: logsOf_save_same)
  moreover from f oid assms(3) have "logsOf store (parcel_id p) = statusLogs p0"
    by (simp add: logsOf_def)
  ultimately show ?thesis by (simp add: assms(2))
qed

lemma perform_success:
  assumes "perform objectId now store c = (Inr (Some p), store')"
  shows "logsOf store' (parcel_id p) = logsOf store (parcel_id p) @ [last (statusLogs p)]
         \<and> (\<forall>oid. oid \<noteq> parcel_id p \<longrightarrow> logsOf store' oid = logsOf store oid)"
proof (cases c)
  case (CreateParcel dto newTrackingId newId)
  with assms have c: "createParcel objectId now newTrackingId newId store dto = (Inr p, store')"
    by (auto split: prod.splits sum.splits)
  from createParcel_Inr [OF c] obtain sender where
    free: "\<not> list_ex (\<lambda>q. trackingId q = newTrackingId \<or> parcel_id q = newId) store" and
    s: "store' = store @ [p]" and i: "parcel_id p = newId" and
    l: "statusLogs p = [\<lparr> log_status = ''Created'', log_timestamp = now,
                           log_note = Some (noteOrDefault (dto_note dto)),
                           log_updatedBy = Some sender \<rparr>]"
    by auto
  from free i have "findById store (parcel_id p) = None"
    by (simp add: list_ex_findById)
  then have "logsOf (store @ [p]) (parcel_id p) = statusLogs p"
    and "logsOf store (parcel_id p) = []"
    by (rule logsOf_append_new)+
  with s l show ?thesis by (simp add: logsOf_append_other)
next
  case (UpdateParcelStatus parcelId newStatus updatedBy annotation)
  with assms have c: "updateParcelStatus objectId now store parcelId newStatus updatedBy annotation
      = (Inr (Some p), store')"
    by simp
  from updateParcelStatus_Inr [OF c] obtain p0 entry where
    f: "getParcelById objectId store parcelId = Some p0" and
    p: "p = p0\<lparr>status := newStatus, statusLogs := statusLogs p0 @ [entry]\<rparr>" and
    s: "store' = save p store"
    by blast
  have "logsOf (save p store) (parcel_id p) = logsOf store (parcel_id p) @ [last (statusLogs p)]"
    using f by (rule pushed_logs) (simp_all add: p)
  with s show ?thesis by (simp add: logsOf_save_other)
next
  case (CancelParcel parcelId userId)
  with assms have c: "cancelParcel objectId now store parcelId userId = (Inr (Some p), store')"
    by simp
  from cancelParcel_Inr [OF c] obtain p0 entry where
    f: "getParcelById objectId store parcelId = Some p0" and
    p: "p = p0\<lparr>status := ''Cancelled'', statusLogs := statusLogs p0 @ [entry]\<rparr>" and
    s: "store' = save p store"
    by blast
  have "logsOf (save p store) (parcel_id p) = logsOf store (parcel_id p) @ [last (statusLogs p)]"
    using f by (rule pushed_logs) (simp_all add: p)
  with s show ?thesis by (simp add: logsOf_save_other)
qed

lemma perform_failure:
  assumes "perform objectId now store c = (r, store')" and "\<forall>p. r \<noteq> Inr (Some p)"
  shows "store' = store"
proof (cases c)
  case (CreateParcel dto newTrackingId newId)
  with assms show ?thesis
    by (auto split: prod.splits sum.splits dest: createParcel_Inl)
next
  case (UpdateParcelStatus parcelId newStatus updatedBy annotation)
  with assms show ?thesis
    by (auto dest: updateParcelStatus_no_parcel)
next
  case (CancelParcel parcelId userId)
  with assms show ?thesis
    by (auto dest: cancelParcel_no_parcel)
qed

lemma perform_prefix:
  "prefix (logsOf store oid) (logsOf (snd (perform objectId now store c)) oid)"
proof (cases "perform objectId now store c")
  case (Pair r store')
  show ?thesis
  proof (cases "\<exists>p. r = Inr (Some p)")
    case True
    then obtain p where "perform objectId now store c = (Inr (Some p), store')"
      using Pair by blast
    from perform_success [OF this] Pair show ?thesis
      by (cases "oid = parcel_id p") simp_all
  next
    case False
    with Pair have "store' = store" by (auto dest: perform_failure)
    with Pair show ?thesis by simp
  qed
qed

lemma performAll_prefix:
  "prefix (logsOf store oid) (logsOf (performAll objectId store calls) oid)"
proof (induction calls arbitrary: store)
  case Nil
  show ?case by simp
next
  case (Cons a calls)
  obtain now c where a: "a = (now, c)" by (cases a)
  have "prefix (logsOf store oid) (logsOf (snd (perform objectId now store c)) oid)"
    by (rule perform_prefix)
  also have "prefix \<dots> (logsOf (performAll objectId (snd (perform objectId now store c)) calls) oid)"
    by (rule Cons.IH)
  finally show ?case by (simp add: a)
qed

text \<open>
  Claim C3. \<open>logsOf store oid\<close> is the log stored under an identifier, empty when
  there is no such parcel. A call that succeeds with a parcel appends exactly one
  entry to the log under that parcel's identifier and touches no other log; a call
  that fails, by an error or by finding no parcel, leaves the collection as it was.
  Hence over every sequence of calls each log is extended at the end only: the log
  before is a prefix of the log after, and its length never decreases.
\<close>

theorem statusLogs_append_only:
  "(perform objectId now store c = (Inr (Some p), store') \<longrightarrow>
       logsOf store' (parcel_id p) = logsOf store (parcel_id p) @ [last (statusLogs p)]
       \<and> (\<forall>other. other \<noteq> parcel_id p \<longrightarrow> logsOf store' other = logsOf store other))
   \<and> (perform objectId now store c = (r, store') \<and> (\<forall>q. r \<noteq> Inr (Some q)) \<longrightarrow> store' = store)
   \<and> prefix (logsOf store oid) (logsOf (performAll objectId store calls) oid)
   \<and> length (logsOf store oid) \<le> length (logsOf (performAll objectId store calls) oid)"
proof -
  have success: "perform objectId now store c = (Inr (Some p), store') \<longrightarrow>
       logsOf store' (parcel_id p) = logsOf store (parcel_id p) @ [last (statusLogs p)]
       \<and> (\<forall>other. other \<noteq> parcel_id p \<longrightarrow> logsOf store' other = logsOf store other)"
    using perform_success by blast
  have failure: "perform objectId now store c = (r, store') \<and> (\<forall>q. r \<noteq> Inr (Some q)) \<longrightarrow>
       store' = store"
    using perform_failure by blast
  have grows: "prefix (logsOf store oid) (logsOf (performAll objectId store calls) oid)"
    by (rule performAll_prefix)
  then have longer: "length (logsOf store oid) \<le> length (logsOf (performAll objectId store calls) oid)"
    by (rule prefix_length_le)
  from success failure grows longer show ?thesis
    by (intro conjI)
qed

theorem statusLogs_append_only_witness:
  "perform hexObjectId 1000 [] (CreateParcel (exampleDTO None) ''TRK-1'' exampleId)
     = (Inr (Some (exampleParcel ''Created'')), [exampleParcel ''Created''])
   \<and> logsOf [exampleParcel ''Created''] exampleId
       = logsOf [] exampleId @ [last (statusLogs (exampleParcel ''Created''))]
   \<and> perform hexObjectId 3000 [exampleParcel ''Dispatched''] (CancelParcel exampleId None)
       = (Inl IllegalTransitionError, [exampleParcel ''Dispatched''])
   \<and> prefix (logsOf [] exampleId) (logsOf (performAll hexObjectId [] scenario) exampleId)
   \<and> length (logsOf [] exampleId) \<le> length (logsOf (performAll hexObjectId [] scenario) exampleId)"
proof -
  have run1: "perform hexObjectId 1000 [] (CreateParcel (exampleDTO None) ''TRK-1'' exampleId)
     = (Inr (Some (exampleParcel ''Created'')), [exampleParcel ''Created''])"
    by (simp add: example_created)
  have ident: "parcel_id (exampleParcel ''Created'') = exampleId"
    by (simp add: exampleParcel_def)
  have run2: "perform hexObjectId 3000 [exampleParcel ''Dispatched''] (CancelParcel exampleId None)
       = (Inl IllegalTransitionError, [exampleParcel ''Dispatched''])"
    using cancelParcel_refused [OF example_found [of "''Dispatched''"], of 3000 None]
    by (simp add: exampleParcel_def)
  from run1 ident
    statusLogs_append_only [where objectId = hexObjectId and now = 1000 and store = "[]"
      and c = "CreateParcel (exampleDTO None) ''TRK-1'' exampleId"
      and p = "exampleParcel ''Created''" and store' = "[exampleParcel ''Created'']"
      and oid = exampleId and calls = scenario]
  have a: "logsOf [exampleParcel ''Created''] exampleId
       = logsOf [] exampleId @ [last (statusLogs (exampleParcel ''Created''))]"
    and b: "prefix (logsOf [] exampleId) (logsOf (performAll hexObjectId [] scenario) exampleId)"
    and c: "length (logsOf [] exampleId) \<le> length (logsOf (performAll hexObjectId [] scenario) exampleId)"
    by simp_all
  from run1 a run2 b c show ?thesis by (intro conjI)
qed

section \<open>Listing\<close>

lemma set_insertBy: "set (insertBy le x xs) = insert x (set xs)"
  by (induction xs) auto

lemma set_sortBy: "set (sortBy le xs) = set xs"
  unfolding sortBy_def by (induction xs) (simp_all add: set_insertBy)

lemma length_insertBy: "length (insertBy le x xs) = Suc (length xs)"
  by (induction xs) auto

lemma length_sortBy: "length (sortBy le xs) = length xs"
  unfolding sortBy_def by (induction xs) (simp_all add: length_insertBy)

lemma set_applyLimit: "set (applyLimit n xs) \<subseteq> set xs"
  by (auto simp: applyLimit_def dest: in_set_takeD)

lemma given_truthy: "given member holds = (case truthy member of None \<Rightarrow> True | Some v \<Rightarrow> holds v)"
  by (simp add: given_def)

lemma matches_selected:
  assumes "buildParcelsQuery regExp newDate fs = Inr q" and "castable objectId q"
  shows "matches objectId q p = selected objectId (regExpMatch regExp) newDate fs p"
proof -
  from assms(1) obtain regex where
    re: "(case truthy (filter_q fs) of None \<Rightarrow> regex = None
          | Some pattern \<Rightarrow> regex \<noteq> None \<and> regExp pattern = regex)"
    and q: "q = \<lparr> q_status = truthy (filter_status fs),
                q_senderId = truthy (filter_senderId fs),
                q_receiverId = truthy (filter_receiverId fs),
                q_trackingId = truthy (filter_trackingId fs),
                q_or = regex,
                q_createdAt =
                  (if truthy (filter_fromDate fs) \<noteq> None \<or> truthy (filter_toDate fs) \<noteq> None
                   then Some (map_option newDate (truthy (filter_fromDate fs)),
                              map_option newDate (truthy (filter_toDate fs)))
                   else None) \<rparr>"
    by (auto simp: buildParcelsQuery_def split: option.splits sum.splits)
  have freeText: "(case regex of None \<Rightarrow> True
               | Some r \<Rightarrow> r (origin p) \<or> r (destination p) \<or> r (trackingId p))
      = given (filter_q fs) (\<lambda>t. regExpMatch regExp t (origin p)
          \<or> regExpMatch regExp t (destination p) \<or> regExpMatch regExp t (trackingId p))"
    using re by (auto simp: given_def regExpMatch_def split: option.splits)
  have from_ok: "map_option newDate (truthy (filter_fromDate fs)) \<noteq> Some InvalidDate"
    and to_ok: "map_option newDate (truthy (filter_toDate fs)) \<noteq> Some InvalidDate"
    using assms(2) unfolding q castable_def by (auto split: if_splits)
  have lower: "(case map_option newDate (truthy (filter_fromDate fs)) of
                  Some (Date d) \<Rightarrow> d \<le> createdAt p | _ \<Rightarrow> True)
      = given (filter_fromDate fs)
          (\<lambda>t. case newDate t of Date d \<Rightarrow> d \<le> createdAt p | InvalidDate \<Rightarrow> False)"
    using from_ok by (auto simp: given_def split: option.splits date.splits)
  have upper: "(case map_option newDate (truthy (filter_toDate fs)) of
                  Some (Date d) \<Rightarrow> createdAt p \<le> d | _ \<Rightarrow> True)
      = given (filter_toDate fs)
          (\<lambda>t. case newDate t of Date d \<Rightarrow> createdAt p \<le> d | InvalidDate \<Rightarrow> False)"
    using to_ok by (auto simp: given_def split: option.splits date.splits)
  have dates: "(case q_createdAt q of
         None \<Rightarrow> True
       | Some (gte, lte) \<Rightarrow>
           (case gte of Some (Date d) \<Rightarrow> d \<le> createdAt p | _ \<Rightarrow> True) \<and>
           (case lte of Some (Date d) \<Rightarrow> createdAt p \<le> d | _ \<Rightarrow> True))
      = (given (filter_fromDate fs)
          (\<lambda>t. case newDate t of Date d \<Rightarrow> d \<le> createdAt p | InvalidDate \<Rightarrow> False)
         \<and> given (filter_toDate fs)
          (\<lambda>t. case newDate t of Date d \<Rightarrow> createdAt p \<le> d | InvalidDate \<Rightarrow> False))"
  proof (cases "truthy (filter_fromDate fs) \<noteq> None \<or> truthy (filter_toDate fs) \<noteq> None")
    case True
    then have "q_createdAt q = Some (map_option newDate (truthy (filter_fromDate fs)),
                              map_option newDate (truthy (filter_toDate fs)))"
      by (simp add: q)
    then show ?thesis unfolding lower [symmetric] upper [symmetric] by simp
  next
    case False
    then show ?thesis by (simp add: q given_def)
  qed
  have plain: "q_status q = truthy (filter_status fs)" "q_senderId q = truthy (filter_senderId fs)"
    "q_receiverId q = truthy (filter_receiverId fs)" "q_trackingId q = truthy (filter_trackingId fs)"
    "q_or q = regex"
    by (simp_all add: q)
  show ?thesis
    unfolding matches_def selected_def dates plain freeText [symmetric]
    by (simp add: given_def)
qed

lemma listParcels_Inr:
  assumes "listParcels objectId regExp newDate store filtersArg pageArg limitArg sortArg
             = Inr (items, totalCount)"
  shows "\<exists>q. buildParcelsQuery regExp newDate
                (case filtersArg of None \<Rightarrow> emptyFilters | Some f \<Rightarrow> f) = Inr q
             \<and> castable objectId q
             \<and> set items \<subseteq> set (filter (matches objectId q) store)
             \<and> totalCount = length (filter (matches objectId q) store)"
proof -
  from assms obtain q where
    b: "buildParcelsQuery regExp newDate
          (case filtersArg of None \<Rightarrow> emptyFilters | Some f \<Rightarrow> f) = Inr q"
    by (auto simp: listParcels_def Let_def split: sum.splits)
  with assms have c: "castable objectId q"
    by (auto simp: listParcels_def Let_def Parcel_countDocuments_def split: sum.splits if_splits)
  from assms b c have t: "totalCount = length (filter (matches objectId q) store)"
    by (auto simp: listParcels_def Let_def Parcel_countDocuments_def split: sum.splits if_splits)
  from assms b c obtain le skip limit where
    "items = applyLimit limit (drop skip (sortBy le (filter (matches objectId q) store)))"
    by (auto simp: listParcels_def Let_def Parcel_find_def Parcel_countDocuments_def
        split: sum.splits if_splits)
  then have "set items \<subseteq> set (filter (matches objectId q) store)"
    using set_applyLimit [of limit "drop skip (sortBy le (filter (matches objectId q) store))"]
      set_drop_subset [of skip "sortBy le (filter (matches objectId q) store)"]
    by (simp only: set_sortBy)
  with b c t show ?thesis by blast
qed

text \<open>
  Claim C6, as the code has it. Whenever \<open>listParcels\<close> returns, every parcel of the
  page is a stored parcel that satisfies all the given members of the filter: equality
  on the status and the tracking identifier, the sender and the receiver being the
  identifiers given, the free-text term matched as a regular expression, letter case
  ignored, against the origin, the destination or the tracking identifier, and the
  creation time within the inclusive bounds. The total is the number of all stored
  parcels that satisfy the filter, and every call with the same filter, whatever the
  page, the limit and the sort order, returns the same total.
\<close>

theorem listParcels_selects:
  assumes "listParcels objectId regExp newDate store filtersArg pageArg limitArg sortArg
             = Inr (items, totalCount)"
  shows "(\<forall>p \<in> set items.
            p \<in> set store
            \<and> selected objectId (regExpMatch regExp) newDate
                 (case filtersArg of None \<Rightarrow> emptyFilters | Some f \<Rightarrow> f) p)
         \<and> totalCount
             = length (filter (selected objectId (regExpMatch regExp) newDate
                 (case filtersArg of None \<Rightarrow> emptyFilters | Some f \<Rightarrow> f)) store)
         \<and> (\<forall>pageArg' limitArg' sortArg' items' totalCount'.
               listParcels objectId regExp newDate store filtersArg pageArg' limitArg' sortArg'
                 = Inr (items', totalCount')
               \<longrightarrow> totalCount' = totalCount)"
proof -
  define fs where "fs = (case filtersArg of None \<Rightarrow> emptyFilters | Some f \<Rightarrow> f)"
  from listParcels_Inr [OF assms] obtain q where
    b: "buildParcelsQuery regExp newDate fs = Inr q" and c: "castable objectId q" and
    i: "set items \<subseteq> set (filter (matches objectId q) store)" and
    t: "totalCount = length (filter (matches objectId q) store)"
    unfolding fs_def by blast
  have same: "matches objectId q = selected objectId (regExpMatch regExp) newDate fs"
    using matches_selected [OF b c] by (intro ext)
  have page: "\<forall>p \<in> set items.
            p \<in> set store \<and> selected objectId (regExpMatch regExp) newDate fs p"
    using i unfolding same by auto
  have count: "totalCount
      = length (filter (selected objectId (regExpMatch regExp) newDate fs) store)"
    using t unfolding same .
  have others: "\<forall>pageArg' limitArg' sortArg' items' totalCount'.
               listParcels objectId regExp newDate store filtersArg pageArg' limitArg' sortArg'
                 = Inr (items', totalCount')
               \<longrightarrow> totalCount' = totalCount"
  proof (intro allI impI)
    fix pageArg' limitArg' sortArg' items' totalCount'
    assume "listParcels objectId regExp newDate store filtersArg pageArg' limitArg' sortArg'
                 = Inr (items', totalCount')"
    from listParcels_Inr [OF this] obtain q' where
      "buildParcelsQuery regExp newDate fs = Inr q'" and
      "totalCount' = length (filter (matches objectId q') store)"
      unfolding fs_def by blast
    with b t show "totalCount' = totalCount" by simp
  qed
  from page count others show ?thesis
    unfolding fs_def by (intro conjI)
qed

lemma threeParcels_dispatched:
  "listParcels hexObjectId dotRegExp exampleNewDate threeParcels
      (Some (emptyFilters\<lparr>filter_status := Some ''Dispatched''\<rparr>)) None None None
     = Inr ([(exampleParcel ''Dispatched'')
               \<lparr>parcel_id := ''bbbbbbbbbbbbbbbbbbbbbbbb'', trackingId := ''TRK-2'',
                createdAt := 2000\<rparr>], 1)"
  by (simp add: listParcels_def buildParcelsQuery_def emptyFilters_def Parcel_find_def
      Parcel_countDocuments_def castable_def matches_def threeParcels_def exampleParcel_def
      sortBy_def applyLimit_def Let_def)

theorem listParcels_selects_witness:
  "listParcels hexObjectId dotRegExp exampleNewDate threeParcels
      (Some (emptyFilters\<lparr>filter_status := Some ''Dispatched''\<rparr>)) None None None
     = Inr ([(exampleParcel ''Dispatched'')
               \<lparr>parcel_id := ''bbbbbbbbbbbbbbbbbbbbbbbb'', trackingId := ''TRK-2'',
                createdAt := 2000\<rparr>], 1)
   \<and> selected hexObjectId (regExpMatch dotRegExp) exampleNewDate
        (emptyFilters\<lparr>filter_status := Some ''Dispatched''\<rparr>)
        ((exampleParcel ''Dispatched'')
               \<lparr>parcel_id := ''bbbbbbbbbbbbbbbbbbbbbbbb'', trackingId := ''TRK-2'',
                createdAt := 2000\<rparr>)
   \<and> length (filter (selected hexObjectId (regExpMatch dotRegExp) exampleNewDate
        (emptyFilters\<lparr>filter_status := Some ''Dispatched''\<rparr>)) threeParcels) = 1"
  using threeParcels_dispatched listParcels_selects [OF threeParcels_dispatched]
  by simp

text \<open>
  The claim as stated fails on a free-text term with a special character. The term is
  a single dot. It occurs in none of the three fields of the example parcel, yet as a
  regular expression it matches them, and the parcel is listed and counted.
\<close>

theorem listParcels_dot_counterexample:
  "listParcels hexObjectId dotRegExp exampleNewDate [exampleParcel ''Created'']
      (Some (emptyFilters\<lparr>filter_q := Some ''.''\<rparr>)) None None None
     = Inr ([exampleParcel ''Created''], 1)
   \<and> \<not> containsIgnoringCase ''.'' (origin (exampleParcel ''Created''))
   \<and> \<not> containsIgnoringCase ''.'' (destination (exampleParcel ''Created''))
   \<and> \<not> containsIgnoringCase ''.'' (trackingId (exampleParcel ''Created''))
   \<and> \<not> selected hexObjectId containsIgnoringCase exampleNewDate
          (emptyFilters\<lparr>filter_q := Some ''.''\<rparr>) (exampleParcel ''Created'')"
proof -
  have run: "listParcels hexObjectId dotRegExp exampleNewDate [exampleParcel ''Created'']
      (Some (emptyFilters\<lparr>filter_q := Some ''.''\<rparr>)) None None None
     = Inr ([exampleParcel ''Created''], 1)"
    by (simp add: listParcels_def buildParcelsQuery_def emptyFilters_def Parcel_find_def
      Parcel_countDocuments_def castable_def matches_def exampleParcel_def dotRegExp_def
      regExpSpecial_def lineBreak_def sortBy_def applyLimit_def Let_def)
  have o: "\<not> containsIgnoringCase ''.'' (origin (exampleParcel ''Created''))"
    and d: "\<not> containsIgnoringCase ''.'' (destination (exampleParcel ''Created''))"
    and t: "\<not> containsIgnoringCase ''.'' (trackingId (exampleParcel ''Created''))"
    by (simp_all add: containsIgnoringCase_def exampleParcel_def toLowerCase_def
        sublist_code prefix_code)
  from o d t have s: "\<not> selected hexObjectId containsIgnoringCase exampleNewDate
          (emptyFilters\<lparr>filter_q := Some ''.''\<rparr>) (exampleParcel ''Created'')"
    by (simp add: selected_def given_def emptyFilters_def)
  from run o d t s show ?thesis by (intro conjI)
qed

text \<open>
  On a term without special characters the two readings agree, in the engine of the
  examples: it matches a field exactly when the term occurs in it, letter case ignored.
\<close>

lemma matchesAt_plain:
  "CHR ''.'' \<notin> set pattern \<Longrightarrow>
     matchesAt pattern s = prefix (map toLowerCase pattern) (map toLowerCase s)"
  by (induction pattern s rule: matchesAt.induct) auto

lemma matchesSomewhere_plain:
  "CHR ''.'' \<notin> set pattern \<Longrightarrow>
     matchesSomewhere pattern s = sublist (map toLowerCase pattern) (map toLowerCase s)"
proof (induction s)
  case Nil
  then show ?case by (cases pattern) simp_all
next
  case (Cons x xs)
  then show ?case by (simp add: matchesAt_plain sublist_Cons_right)
qed

lemma dotRegExp_plain:
  assumes "\<not> list_ex regExpSpecial word"
  shows "regExpMatch dotRegExp word s = containsIgnoringCase word s"
proof -
  from assms have "CHR ''.'' \<notin> set word"
    by (auto simp: list_ex_iff regExpSpecial_def)
  moreover from assms have "\<not> list_ex (\<lambda>c. regExpSpecial c \<and> c \<noteq> CHR ''.'') word"
    by (auto simp: list_ex_iff)
  ultimately show ?thesis
    by (simp add: regExpMatch_def dotRegExp_def containsIgnoringCase_def matchesSomewhere_plain)
qed

section \<open>Identifiers stay unique\<close>

text \<open>
  \<open>save\<close> keeps every identifier in its place, and \<open>Parcel_create\<close> refuses an
  identifier that is in use. So the identifiers of a collection built from the empty
  one are distinct, every document is the one found under its identifier, and \<open>logsOf\<close>
  speaks about every document of the collection.
\<close>

lemma map_parcel_id_save:
  "map parcel_id (save p store) = map parcel_id store"
  by (induction store) auto

lemma perform_distinct:
  assumes "distinct (map parcel_id store)"
  shows "distinct (map parcel_id (snd (perform objectId now store c)))"
proof (cases "perform objectId now store c")
  case (Pair r store')
  show ?thesis
  proof (cases "\<exists>p. r = Inr (Some p)")
    case False
    with Pair have "store' = store" by (auto dest: perform_failure)
    with Pair assms show ?thesis by simp
  next
    case True
    then obtain p where r: "r = Inr (Some p)" by blast
    show ?thesis
    proof (cases c)
      case (CreateParcel dto newTrackingId newId)
      with Pair r have c: "createParcel objectId now newTrackingId newId store dto = (Inr p, store')"
        by (auto split: prod.splits sum.splits)
      from createParcel_Inr [OF c] have
        free: "\<not> list_ex (\<lambda>q. trackingId q = newTrackingId \<or> parcel_id q = newId) store" and
        s: "store' = store @ [p]" and i: "parcel_id p = newId"
        by auto
      from free i have "parcel_id p \<notin> parcel_id ` set store"
        by (auto simp: list_ex_iff)
      with assms s Pair show ?thesis by simp
    next
      case (UpdateParcelStatus parcelId newStatus updatedBy annotation)
      with Pair r have "updateParcelStatus objectId now store parcelId newStatus updatedBy annotation
          = (Inr (Some p), store')"
        by simp
      from updateParcelStatus_Inr [OF this] have "store' = save p store" by blast
      with assms Pair show ?thesis by (simp add: map_parcel_id_save)
    next
      case (CancelParcel parcelId userId)
      with Pair r have "cancelParcel objectId now store parcelId userId = (Inr (Some p), store')"
        by simp
      from cancelParcel_Inr [OF this] have "store' = save p store" by blast
      with assms Pair show ?thesis by (simp add: map_parcel_id_save)
    qed
  qed
qed

lemma performAll_distinct:
  "distinct (map parcel_id store) \<Longrightarrow> distinct (map parcel_id (performAll objectId store calls))"
proof (induction calls arbitrary: store)
  case Nil
  then show ?case by simp
next
  case (Cons a calls)
  obtain now c where a: "a = (now, c)" by (cases a)
  from Cons.prems have "distinct (map parcel_id (snd (perform objectId now store c)))"
    by (rule perform_distinct)
  then show ?case unfolding a by (simp add: Cons.IH)
qed

lemma distinct_findById:
  assumes "distinct (map parcel_id store)" and "p \<in> set store"
  shows "findById store (parcel_id p) = Some p"
  using assms unfolding findById_def by (induction store) auto

lemma reachable_logsOf:
  assumes "p \<in> set (performAll objectId [] calls)"
  shows "logsOf (performAll objectId [] calls) (parcel_id p) = statusLogs p"
proof -
  have "distinct (map parcel_id (performAll objectId [] calls))"
    by (rule performAll_distinct) simp
  from distinct_findById [OF this assms] show ?thesis
    by (simp add: logsOf_def)
qed

section \<open>What the handlers answer\<close>

text \<open>
  The cancel handler turns the refusal into a 400 with the error's own message, and
  the absence of the parcel into a 404.
\<close>

lemma cancelParcelHandler_refused:
  assumes "getParcelById objectId store parcelId = Some p"
    and "status p \<in> {''Dispatched'', ''InTransit'', ''Delivered''}"
    and "truthy (req_user_id req) = Some u"
    and "truthy (req_params_id req) = Some parcelId"
  shows "cancelParcelHandler objectId now store req
           = (Response 400 ''fail'' (Message ''Cannot cancel parcel after dispatch''), store)"
  using assms(3,4) cancelParcel_refused [OF assms(1,2), of now "Some u"]
  by (simp add: cancelParcelHandler_def IllegalTransitionError_def)

lemma cancelParcelHandler_not_found:
  assumes "getParcelById objectId store parcelId = None"
    and "truthy (req_user_id req) = Some u"
    and "truthy (req_params_id req) = Some parcelId"
  shows "cancelParcelHandler objectId now store req
           = (Response 404 ''fail'' (Message ''Parcel not found''), store)"
  using assms by (simp add: cancelParcelHandler_def cancelParcel_def)

lemma createParcelHandler_created:
  assumes "truthy (req_user_id req) = Some u"
    and "truthy (req_body_receiverId req) = Some r"
    and "truthy (req_body_origin req) = Some orig"
    and "truthy (req_body_destination req) = Some dest"
    and "createParcel objectId now newTrackingId newId store
           \<lparr> dto_senderId = u, dto_receiverId = r, dto_origin = orig, dto_destination = dest,
             dto_weight = req_body_weight req, dto_price = req_body_price req,
             dto_note = req_body_note req \<rparr> = (Inr p, store')"
  shows "createParcelHandler objectId now newTrackingId newId store req
           = (Response 201 ''success'' (Data p), store')"
  using assms by (simp add: createParcelHandler_def)

lemma getParcelById_None_iff:
  "getParcelById objectId store ident = None \<longleftrightarrow>
     (\<not> isValid objectId ident
      \<or> (\<exists>oid. objectId ident = Some oid \<and> oid \<notin> parcel_id ` set store))"
  by (auto simp: getParcelById_def isValid_def findById_None split: option.splits)

section \<open>When the listing returns\<close>

text \<open>
  The listing returns whenever the free-text term is a well-formed expression, the
  sender and the receiver of the filter are identifiers, its dates are valid, and the
  number of documents to skip is not negative.
\<close>

lemma listParcels_returns:
  assumes "given (filter_q fs) (\<lambda>t. regExp t \<noteq> None)"
    and "given (filter_senderId fs) (isValid objectId)"
    and "given (filter_receiverId fs) (isValid objectId)"
    and "given (filter_fromDate fs) (\<lambda>t. newDate t \<noteq> InvalidDate)"
    and "given (filter_toDate fs) (\<lambda>t. newDate t \<noteq> InvalidDate)"
    and "0 \<le> (page - 1) * limit"
  shows "\<exists>items. listParcels objectId regExp newDate store (Some fs) (Some page) (Some limit) sortArg
           = Inr (items, length (filter (selected objectId (regExpMatch regExp) newDate fs) store))"
proof -
  from assms(1) obtain q where b: "buildParcelsQuery regExp newDate fs = Inr q"
    by (auto simp: buildParcelsQuery_def given_def split: option.splits)
  then have q: "q_senderId q = truthy (filter_senderId fs)"
    "q_receiverId q = truthy (filter_receiverId fs)"
    "q_createdAt q =
       (if truthy (filter_fromDate fs) \<noteq> None \<or> truthy (filter_toDate fs) \<noteq> None
        then Some (map_option newDate (truthy (filter_fromDate fs)),
                   map_option newDate (truthy (filter_toDate fs)))
        else None)"
    by (auto simp: buildParcelsQuery_def split: option.splits sum.splits)
  have c: "castable objectId q"
    using assms(2-5) unfolding castable_def q
    by (auto simp: given_def split: option.splits)
  have same: "matches objectId q = selected objectId (regExpMatch regExp) newDate fs"
    using matches_selected [OF b c] by (intro ext)
  show ?thesis
    using assms(6) b c
    by (simp add: listParcels_def Parcel_find_def Parcel_countDocuments_def same Let_def)
qed

end
